theory Spec2Isabelle
  imports Complex_Main "HOL-Library.Word" "HOL-Library.List_Lexorder"
begin

section \<open>Data model of the CNTK v2 Trainer (Source/CNTKv2LibraryDll/Trainer.cpp)\<close>

text \<open>
  The trainer is a coordination layer: the computation graph, automatic differentiation,
  tensor storage, learners and the file system are collaborators that live outside
  \<^verbatim>\<open>Trainer.cpp\<close>. Their observable data are modelled by the records below; their
  behaviour is a parameter of every operation (the record \<open>collaborators\<close>), and each call
  that the trainer makes into them is appended to a trace of events, so that a theorem can
  say which calls are made, with which arguments, and in which order.
\<close>

subsection \<open>Scalars, strings, shapes\<close>

text \<open>\<^verbatim>\<open>size_t\<close> of the 64-bit targets: arithmetic wraps around.\<close>

type_synonym size_t = "64 word"

text \<open>A \<^verbatim>\<open>std::wstring\<close> is the list of its wide characters' code points.\<close>

type_synonym wstring = "nat list"

text \<open>The wide string literal \<^verbatim>\<open>L"..."\<close>.\<close>

definition L :: "string \<Rightarrow> wstring" where
  "L s = map of_char s"

datatype DataType = Unknown | Float | Double

datatype DeviceDescriptor = CPUDevice | GPUDevice nat

text \<open>
  A C++ \<^verbatim>\<open>float\<close> or \<^verbatim>\<open>double\<close> value, tagged with its type. Finite values are
  carried by reals; rounding, infinities and NaN are outside this development.
\<close>

datatype scalar = FloatVal real | DoubleVal real

fun scalar_value :: "scalar \<Rightarrow> real" where
  "scalar_value (FloatVal r) = r"
| "scalar_value (DoubleVal r) = r"

text \<open>
  The \<^verbatim>\<open>double\<close> that \<^verbatim>\<open>x / n\<close> yields for a \<^verbatim>\<open>double x\<close> and a \<^verbatim>\<open>size_t n\<close>. The
  quotient is kept symbolic: IEEE division (by zero in particular) is not division of reals.
\<close>

datatype double_quotient = Div real size_t

text \<open>\<^verbatim>\<open>NDShape\<close>: the vector of dimensions; \<^verbatim>\<open>Rank()\<close> is its size.\<close>

type_synonym NDShape = "size_t list"

definition Rank :: "NDShape \<Rightarrow> size_t" where
  "Rank s = of_nat (length s)"

subsection \<open>Errors\<close>

text \<open>
  \<open>InvalidArgument\<close> and \<open>LogicError\<close> are the two exceptions the file raises itself;
  \<open>OutOfRange\<close> is the \<^verbatim>\<open>std::out_of_range\<close> of \<^verbatim>\<open>std::map::at\<close>;
  \<open>UndefinedBehaviour\<close> stands for dereferencing a null pointer or an end iterator,
  indexing a vector out of range and reading uninitialised or empty storage.
\<close>

datatype error = InvalidArgument | LogicError | OutOfRange | UndefinedBehaviour

subsection \<open>Variables, values, functions, learners\<close>

datatype VariableKind = Input | Output | Parameter | Constant | Placeholder

datatype Axis = StaticAxis nat | DynamicAxis wstring

record Variable =
  Uid :: wstring
  Name :: wstring
  Kind :: VariableKind
  Shape :: NDShape
  GetDataType :: DataType
  DynamicAxes :: "Axis list"
  NeedsGradient :: bool
  IsSparse :: bool

definition IsConstant :: "Variable \<Rightarrow> bool" where
  "IsConstant v = (Kind v = Constant)"

definition IsParameter :: "Variable \<Rightarrow> bool" where
  "IsParameter v = (Kind v = Parameter)"

text \<open>
  The storage of an array view: not yet written, every element set to one scalar, or the
  elements in order.
\<close>

datatype storage = Uninitialized | Filled scalar | Elements "scalar list"

record NDArrayView =
  view_DataType :: DataType
  view_Shape :: NDShape
  view_Device :: DeviceDescriptor
  view_Storage :: storage

text \<open>\<^verbatim>\<open>NDArrayView(dataType, shape, device)\<close>, \<^verbatim>\<open>SetValue(v)\<close> and \<^verbatim>\<open>CopyFrom(src)\<close>.\<close>

definition NDArrayView_new :: "DataType \<Rightarrow> NDShape \<Rightarrow> DeviceDescriptor \<Rightarrow> NDArrayView" where
  "NDArrayView_new dt sh dev =
     \<lparr>view_DataType = dt, view_Shape = sh, view_Device = dev, view_Storage = Uninitialized\<rparr>"

definition SetValue :: "scalar \<Rightarrow> NDArrayView \<Rightarrow> NDArrayView" where
  "SetValue v a = a\<lparr>view_Storage := Filled v\<rparr>"

definition CopyFrom :: "NDArrayView \<Rightarrow> NDArrayView \<Rightarrow> NDArrayView" where
  "CopyFrom src a = a\<lparr>view_Storage := view_Storage src\<rparr>"

record NDMask =
  MaskedCount :: size_t

text \<open>A \<^verbatim>\<open>Value\<close>: its data and its mask, \<open>None\<close> for a null mask pointer.\<close>

record Value =
  Data :: NDArrayView
  Mask :: "NDMask option"

text \<open>A \<^verbatim>\<open>ValuePtr\<close>: \<open>None\<close> is \<^verbatim>\<open>nullptr\<close>.\<close>

type_synonym ValuePtr = "Value option"

datatype PrimitiveOpType = PastValue | FutureValue | OtherOp nat

record PrimitiveFunction =
  OpType :: PrimitiveOpType
  prim_Inputs :: "Variable list"

text \<open>
  What the trainer reads of a \<^verbatim>\<open>Function\<close>. The unordered sets \<^verbatim>\<open>Parameters()\<close> and
  \<^verbatim>\<open>m_allPrimitiveFunctions\<close> are lists in their iteration order.
\<close>

record Function =
  fn_Output :: Variable
  fn_Outputs :: "Variable list"
  fn_Arguments :: "Variable list"
  fn_Inputs :: "Variable list"
  fn_Parameters :: "Variable list"
  m_allPrimitiveFunctions :: "PrimitiveFunction list"

text \<open>A learner: the identity of the object behind the \<^verbatim>\<open>LearnerPtr\<close> and its parameters.\<close>

record Learner =
  learner_id :: nat
  learner_Parameters :: "Variable list"

datatype Dictionary = Dictionary "(wstring \<times> nat) list"

type_synonym BackPropStatePtr = nat

text \<open>Which accessor a value was taken from: \<^verbatim>\<open>Constant(v).Value()\<close> or \<^verbatim>\<open>Parameter(v).Value()\<close>.\<close>

datatype value_ref = ConstantValue Variable | ParameterValue Variable

subsection \<open>Unordered maps\<close>

text \<open>
  A \<^verbatim>\<open>std::unordered_map\<close> is an association list with distinct keys, in its iteration
  order. \<open>umap_index\<close> is reading \<^verbatim>\<open>m[k]\<close> for a pointer-valued map (a missing key reads as
  the null pointer), \<open>umap_assign\<close> is \<^verbatim>\<open>m[k] = v\<close>, \<open>umap_insert\<close> is \<^verbatim>\<open>m.insert({k, v})\<close>,
  which keeps an entry that is already there.
\<close>

type_synonym ('k, 'v) umap = "('k \<times> 'v) list"

definition umap_index :: "('k, 'v option) umap \<Rightarrow> 'k \<Rightarrow> 'v option" where
  "umap_index m k = (case map_of m k of None \<Rightarrow> None | Some p \<Rightarrow> p)"

fun umap_assign :: "'k \<Rightarrow> 'v \<Rightarrow> ('k, 'v) umap \<Rightarrow> ('k, 'v) umap" where
  "umap_assign k v [] = [(k, v)]"
| "umap_assign k v ((k', v') # m) =
     (if k = k' then (k, v) # m else (k', v') # umap_assign k v m)"

definition umap_insert :: "'k \<Rightarrow> 'v \<Rightarrow> ('k, 'v) umap \<Rightarrow> ('k, 'v) umap" where
  "umap_insert k v m = (if k \<in> fst ` set m then m else m @ [(k, v)])"

subsection \<open>Events and collaborators\<close>

text \<open>
  One event per call into a collaborator, with the arguments of the call; \<open>EUpdate\<close> also
  records what \<^verbatim>\<open>Learner::Update\<close> returned.
\<close>

datatype event =
    EForward Function "(Variable, ValuePtr) umap" "(Variable, ValuePtr) umap"
      DeviceDescriptor "Variable list"
  | EBackward Function BackPropStatePtr "(Variable, ValuePtr) umap" "(Variable, ValuePtr) umap"
  | EUpdate Learner "(Variable, NDArrayView) umap" size_t bool
  | ESaveAsLegacyModel Function wstring
  | ELoadLegacyModel DataType wstring DeviceDescriptor
  | EGetCheckpointState Learner
  | EGetFstream wstring bool
  | EStreamWrite wstring Dictionary
  | EStreamFlush wstring
  | EStreamRead wstring
  | ECopyFrom value_ref value_ref
  | ERestoreFromCheckpoint Learner Dictionary

type_synonym trace = "event list"

text \<open>
  The collaborators. Each answer may depend on the calls made so far (the trace) and on
  the arguments of the call. \<open>TotalSize\<close>, \<open>SubShape\<close> and \<open>AsTensorShape\<close> are the helpers
  of \<^verbatim>\<open>NDShape\<close> and \<^verbatim>\<open>Utils.h\<close> that the file uses but does not define.
\<close>

record collaborators =
  Combine :: "Function option list \<Rightarrow> Function"
  Forward :: "trace \<Rightarrow> Function \<Rightarrow> (Variable, ValuePtr) umap \<Rightarrow> (Variable, ValuePtr) umap \<Rightarrow>
                DeviceDescriptor \<Rightarrow> Variable list \<Rightarrow> BackPropStatePtr \<times> (Variable, ValuePtr) umap"
  Backward :: "trace \<Rightarrow> Function \<Rightarrow> BackPropStatePtr \<Rightarrow> (Variable, ValuePtr) umap \<Rightarrow>
                 (Variable, ValuePtr) umap \<Rightarrow> (Variable, ValuePtr) umap"
  Update :: "trace \<Rightarrow> Learner \<Rightarrow> (Variable, NDArrayView) umap \<Rightarrow> size_t \<Rightarrow> bool"
  GetCheckpointState :: "trace \<Rightarrow> Learner \<Rightarrow> Dictionary"
  LoadLegacyModel :: "trace \<Rightarrow> DataType \<Rightarrow> wstring \<Rightarrow> DeviceDescriptor \<Rightarrow> Function"
  StreamRead :: "trace \<Rightarrow> wstring \<Rightarrow> Dictionary"
  TotalSize :: "NDShape \<Rightarrow> size_t"
  SubShape :: "NDShape \<Rightarrow> size_t \<Rightarrow> error + NDShape"
  AsTensorShape :: "NDShape \<Rightarrow> NDShape"

section \<open>The operations of Trainer.cpp\<close>

subsection \<open>GetScalarValue\<close>

text \<open>Reading \<^verbatim>\<open>*(view->DataBuffer<T>())\<close>: the first element, as a \<^verbatim>\<open>double\<close>.\<close>

definition DataBuffer_first :: "NDArrayView \<Rightarrow> error + real" where
  "DataBuffer_first a =
     (case view_Storage a of
        Uninitialized \<Rightarrow> Inl UndefinedBehaviour
      | Filled v \<Rightarrow> Inr (scalar_value v)
      | Elements [] \<Rightarrow> Inl UndefinedBehaviour
      | Elements (v # _) \<Rightarrow> Inr (scalar_value v))"

definition GetScalarValue :: "collaborators \<Rightarrow> ValuePtr \<Rightarrow> error + real" where
  "GetScalarValue env value =
     (case value of
        None \<Rightarrow> Inl UndefinedBehaviour
      | Some v \<Rightarrow>
          if Mask v \<noteq> None then Inl LogicError
          else
            let scalarData = Data v in
            if TotalSize env (view_Shape scalarData) \<noteq> 1 then Inl LogicError
            else
              let cpuData =
                    (if view_Device scalarData = CPUDevice then scalarData
                     else CopyFrom scalarData
                            (NDArrayView_new (view_DataType scalarData) (view_Shape scalarData)
                               CPUDevice))
              in if view_DataType scalarData = Float then DataBuffer_first cpuData
                 else if view_DataType scalarData = Double then DataBuffer_first cpuData
                 else Inl LogicError)"

subsection \<open>GetSampleCountFromArguments\<close>

definition GetSampleCountFromArguments ::
  "collaborators \<Rightarrow> Variable \<Rightarrow> (Variable, ValuePtr) umap \<Rightarrow> error + size_t" where
  "GetSampleCountFromArguments env evalOrLossArgument arguments =
     (case find (\<lambda>currentPair. DynamicAxes (fst currentPair) = DynamicAxes evalOrLossArgument)
             arguments of
        None \<Rightarrow> Inl UndefinedBehaviour
      | Some (argumentVar, None) \<Rightarrow> Inl UndefinedBehaviour
      | Some (argumentVar, Some argumentValue) \<Rightarrow>
          let argumentDataShape = view_Shape (Data argumentValue);
              mask = Mask argumentValue;
              numMaskedSamples = (case mask of Some m \<Rightarrow> MaskedCount m | None \<Rightarrow> 0)
          in (case SubShape env argumentDataShape (Rank (Shape argumentVar)) of
                Inl e \<Rightarrow> Inl e
              | Inr sub \<Rightarrow>
                  let numSamplesInDataArrayView = TotalSize env sub in
                  if numMaskedSamples > numSamplesInDataArrayView then Inl LogicError
                  else Inr (numSamplesInDataArrayView - numMaskedSamples)))"

subsection \<open>Checkpoint file path\<close>

definition GetTrainerStateCheckpointFilePath :: "wstring \<Rightarrow> wstring" where
  "GetTrainerStateCheckpointFilePath modelFilePath =
     (let checkpointExt = L ''.ckp'' in modelFilePath @ checkpointExt)"

subsection \<open>The trainer and its constructors\<close>

record Trainer =
  m_model :: Function
  m_lossFunction :: Function
  m_evaluationFunction :: "Function option"
  m_combinedTrainingFunction :: Function
  m_parameterLearners :: "Learner list"
  m_prevMinibatchNumSamples :: size_t
  m_prevMinibatchAggregateTrainingLossValue :: ValuePtr
  m_prevMinibatchAggregateEvalCriterionValue :: ValuePtr

text \<open>
  The inner loop of the constructor: \<^verbatim>\<open>learnerParameters.insert(parameter)\<close> for each
  parameter of one learner, \<open>InvalidArgument\<close> at the first one that is already in the set.
\<close>

fun insert_parameters :: "Variable list \<Rightarrow> Variable list \<Rightarrow> error + Variable list" where
  "insert_parameters [] learnerParameters = Inr learnerParameters"
| "insert_parameters (parameter # rest) learnerParameters =
     (if parameter \<in> set learnerParameters then Inl InvalidArgument
      else insert_parameters rest (learnerParameters @ [parameter]))"

text \<open>The outer loop, over the learners.\<close>

fun collect_parameters :: "Learner list \<Rightarrow> Variable list \<Rightarrow> error + Variable list" where
  "collect_parameters [] learnerParameters = Inr learnerParameters"
| "collect_parameters (learner # rest) learnerParameters =
     (case insert_parameters (learner_Parameters learner) learnerParameters of
        Inl e \<Rightarrow> Inl e
      | Inr learnerParameters' \<Rightarrow> collect_parameters rest learnerParameters')"

definition Trainer_ctor ::
  "collaborators \<Rightarrow> Function \<Rightarrow> Function \<Rightarrow> Function option \<Rightarrow> Learner list \<Rightarrow> error + Trainer"
  where
  "Trainer_ctor env model lossFunction evaluationFunction parameterLearners =
     (let combined = Combine env [Some model, Some lossFunction, evaluationFunction];
          modelParameters = fn_Parameters combined
      in case collect_parameters parameterLearners [] of
           Inl e \<Rightarrow> Inl e
         | Inr learnerParameters \<Rightarrow>
             if set modelParameters \<noteq> set learnerParameters then Inl InvalidArgument
             else Inr \<lparr>m_model = model, m_lossFunction = lossFunction,
                       m_evaluationFunction = evaluationFunction,
                       m_combinedTrainingFunction = combined,
                       m_parameterLearners = parameterLearners,
                       m_prevMinibatchNumSamples = 1,
                       m_prevMinibatchAggregateTrainingLossValue = None,
                       m_prevMinibatchAggregateEvalCriterionValue = None\<rparr>)"

text \<open>The constructor without an evaluation function delegates with \<^verbatim>\<open>nullptr\<close>.\<close>

definition Trainer_ctor3 ::
  "collaborators \<Rightarrow> Function \<Rightarrow> Function \<Rightarrow> Learner list \<Rightarrow> error + Trainer" where
  "Trainer_ctor3 env model lossFunction parameterLearners =
     Trainer_ctor env model lossFunction None parameterLearners"

subsection \<open>TestMinbatch\<close>

text \<open>
  Every member function returns its result or the exception it raised, the trainer as it
  is at that moment, and the trace extended by the calls made up to that moment.
\<close>

definition TestMinbatch ::
  "collaborators \<Rightarrow> Trainer \<Rightarrow> (Variable, ValuePtr) umap \<Rightarrow> DeviceDescriptor \<Rightarrow> trace \<Rightarrow>
     (error + double_quotient) \<times> Trainer \<times> trace" where
  "TestMinbatch env t arguments computeDevice h =
     (case m_evaluationFunction t of
        None \<Rightarrow> (Inl InvalidArgument, t, h)
      | Some evaluationFunction \<Rightarrow>
          let outputs = [(fn_Output evaluationFunction, None)];
              h1 = h @ [EForward (m_combinedTrainingFunction t) arguments outputs computeDevice []];
              outputs = snd (Forward env h (m_combinedTrainingFunction t) arguments outputs
                               computeDevice [])
          in (case fn_Arguments evaluationFunction of
                [] \<Rightarrow> (Inl UndefinedBehaviour, t, h1)
              | firstArgument # _ \<Rightarrow>
                  (case GetSampleCountFromArguments env firstArgument arguments of
                     Inl e \<Rightarrow> (Inl e, t, h1)
                   | Inr sampleCount \<Rightarrow>
                       (case GetScalarValue env
                               (umap_index outputs (fn_Output evaluationFunction)) of
                          Inl e \<Rightarrow> (Inl e, t, h1)
                        | Inr scalar \<Rightarrow> (Inr (Div scalar sampleCount), t, h1)))))"

subsection \<open>TrainMinibatch\<close>

text \<open>
  The loop over one learner's parameters: the gradient's data is stored first, then a
  masked gradient raises \<open>LogicError\<close>; a null gradient cannot be dereferenced.
\<close>

fun learner_gradients ::
  "(Variable, ValuePtr) umap \<Rightarrow> Variable list \<Rightarrow> (Variable, NDArrayView) umap \<Rightarrow>
     error + (Variable, NDArrayView) umap" where
  "learner_gradients parameterGradients [] learnerParameterGradients =
     Inr learnerParameterGradients"
| "learner_gradients parameterGradients (parameter # rest) learnerParameterGradients =
     (case umap_index parameterGradients parameter of
        None \<Rightarrow> Inl UndefinedBehaviour
      | Some gradient \<Rightarrow>
          let learnerParameterGradients' =
                umap_assign parameter (Data gradient) learnerParameterGradients
          in if Mask gradient \<noteq> None then Inl LogicError
             else learner_gradients parameterGradients rest learnerParameterGradients')"

text \<open>The loop over the learners, with the accumulator \<^verbatim>\<open>anyUpdatesPerformed\<close>.\<close>

fun update_learners ::
  "collaborators \<Rightarrow> (Variable, ValuePtr) umap \<Rightarrow> size_t \<Rightarrow> Learner list \<Rightarrow> bool \<Rightarrow> trace \<Rightarrow>
     (error + bool) \<times> trace" where
  "update_learners env parameterGradients numSamples [] anyUpdatesPerformed h =
     (Inr anyUpdatesPerformed, h)"
| "update_learners env parameterGradients numSamples (learner # rest) anyUpdatesPerformed h =
     (case learner_gradients parameterGradients (learner_Parameters learner) [] of
        Inl e \<Rightarrow> (Inl e, h)
      | Inr learnerParameterGradients \<Rightarrow>
          let updated = Update env h learner learnerParameterGradients numSamples
          in update_learners env parameterGradients numSamples rest
               (anyUpdatesPerformed \<or> updated)
               (h @ [EUpdate learner learnerParameterGradients numSamples updated]))"

text \<open>The outputs requested of \<^verbatim>\<open>Forward\<close>, each with a null value to be filled in.\<close>

definition requested_outputs :: "Trainer \<Rightarrow> (Variable, ValuePtr) umap" where
  "requested_outputs t =
     (let outputs = [(fn_Output (m_lossFunction t), None)]
      in case m_evaluationFunction t of
           None \<Rightarrow> outputs
         | Some evaluationFunction \<Rightarrow> umap_insert (fn_Output evaluationFunction) None outputs)"

text \<open>The root gradient: a fresh view of the loss's data type and shape, set to one.\<close>

definition rootGradientValue :: "Trainer \<Rightarrow> Value \<Rightarrow> DeviceDescriptor \<Rightarrow> Value" where
  "rootGradientValue t lossValue computeDevice =
     (let dataType = GetDataType (fn_Output (m_lossFunction t));
          view = NDArrayView_new dataType (view_Shape (Data lossValue)) computeDevice
      in \<lparr>Data = (if dataType = Float then SetValue (FloatVal 1) view
                  else SetValue (DoubleVal 1) view),
          Mask = Mask lossValue\<rparr>)"

definition TrainMinibatch ::
  "collaborators \<Rightarrow> Trainer \<Rightarrow> (Variable, ValuePtr) umap \<Rightarrow> DeviceDescriptor \<Rightarrow> trace \<Rightarrow>
     (error + bool) \<times> Trainer \<times> trace" where
  "TrainMinibatch env t arguments computeDevice h =
     (let lossVar = fn_Output (m_lossFunction t);
          combined = m_combinedTrainingFunction t;
          outputs = requested_outputs t;
          h1 = h @ [EForward combined arguments outputs computeDevice [lossVar]];
          (backPropSate, outputs) =
             Forward env h combined arguments outputs computeDevice [lossVar];
          t1 = t\<lparr>m_prevMinibatchAggregateTrainingLossValue := umap_index outputs lossVar\<rparr>;
          t2 = (case m_evaluationFunction t of
                  None \<Rightarrow> t1
                | Some evaluationFunction \<Rightarrow>
                    t1\<lparr>m_prevMinibatchAggregateEvalCriterionValue :=
                          umap_index outputs (fn_Output evaluationFunction)\<rparr>)
      in case m_prevMinibatchAggregateTrainingLossValue t2 of
           None \<Rightarrow> (Inl UndefinedBehaviour, t2, h1)
         | Some lossValue \<Rightarrow>
             let rootGradient = rootGradientValue t lossValue computeDevice;
                 modelParameters = fn_Parameters combined;
                 parameterGradients =
                   fold (\<lambda>parameter m. umap_assign parameter None m) modelParameters [];
                 rootGradients = [(lossVar, Some rootGradient)];
                 h2 = h1 @ [EBackward combined backPropSate rootGradients parameterGradients];
                 parameterGradients =
                   Backward env h1 combined backPropSate rootGradients parameterGradients
             in (case fn_Arguments (m_lossFunction t) of
                   [] \<Rightarrow> (Inl UndefinedBehaviour, t2, h2)
                 | firstArgument # _ \<Rightarrow>
                     (case GetSampleCountFromArguments env firstArgument arguments of
                        Inl e \<Rightarrow> (Inl e, t2, h2)
                      | Inr sampleCount \<Rightarrow>
                          let t3 = t2\<lparr>m_prevMinibatchNumSamples := sampleCount\<rparr>;
                              (r, h3) = update_learners env parameterGradients
                                          (m_prevMinibatchNumSamples t3)
                                          (m_parameterLearners t3) False h2
                          in (r, t3, h3))))"

subsection \<open>Averages of the previous minibatch\<close>

definition PreviousMinibatchLossAverage ::
  "collaborators \<Rightarrow> Trainer \<Rightarrow> error + double_quotient" where
  "PreviousMinibatchLossAverage env t =
     (case GetScalarValue env (m_prevMinibatchAggregateTrainingLossValue t) of
        Inl e \<Rightarrow> Inl e
      | Inr scalar \<Rightarrow> Inr (Div scalar (m_prevMinibatchNumSamples t)))"

definition PreviousMinibatchEvaluationAverage ::
  "collaborators \<Rightarrow> Trainer \<Rightarrow> error + double_quotient" where
  "PreviousMinibatchEvaluationAverage env t =
     (case m_evaluationFunction t of
        None \<Rightarrow> Inl InvalidArgument
      | Some _ \<Rightarrow>
          (case GetScalarValue env (m_prevMinibatchAggregateEvalCriterionValue t) of
             Inl e \<Rightarrow> Inl e
           | Inr scalar \<Rightarrow> Inr (Div scalar (m_prevMinibatchNumSamples t))))"

subsection \<open>Checkpoints\<close>

text \<open>
  \<^verbatim>\<open>GetFstream\<close> opens the file at a path for reading or for writing. The stream is
  identified by the path it was opened on.
\<close>

record fstream =
  stream_path :: wstring
  stream_readOnly :: bool

definition GetFstream :: "wstring \<Rightarrow> bool \<Rightarrow> trace \<Rightarrow> fstream \<times> trace" where
  "GetFstream filePath readOnly h =
     (\<lparr>stream_path = filePath, stream_readOnly = readOnly\<rparr>, h @ [EGetFstream filePath readOnly])"

definition SaveCheckpoint ::
  "collaborators \<Rightarrow> Trainer \<Rightarrow> wstring \<Rightarrow> trace \<Rightarrow> (error + unit) \<times> Trainer \<times> trace" where
  "SaveCheckpoint env t modelFilePath h =
     (let h1 = h @ [ESaveAsLegacyModel (m_combinedTrainingFunction t) modelFilePath]
      in if length (m_parameterLearners t) > 1 then (Inl LogicError, t, h1)
         else
           (case m_parameterLearners t of
              [] \<Rightarrow> (Inl UndefinedBehaviour, t, h1)
            | firstLearner # _ \<Rightarrow>
                let learnerState = GetCheckpointState env h1 firstLearner;
                    h2 = h1 @ [EGetCheckpointState firstLearner];
                    trainerStateCheckpointFilePath =
                      GetTrainerStateCheckpointFilePath modelFilePath;
                    (ckpStream, h3) = GetFstream trainerStateCheckpointFilePath False h2;
                    h4 = h3 @ [EStreamWrite (stream_path ckpStream) learnerState];
                    h5 = h4 @ [EStreamFlush (stream_path ckpStream)]
                in (Inr (), t, h5)))"

text \<open>
  A \<^verbatim>\<open>std::map<std::wstring, Variable>\<close> is an association list sorted by key, which is
  its iteration order. \<open>map_assign\<close> is \<^verbatim>\<open>m[k] = v\<close>, \<open>map_erase\<close> is \<^verbatim>\<open>m.erase(k)\<close>,
  \<open>map_at\<close> is \<^verbatim>\<open>m.at(k)\<close>, which throws for a missing key.
\<close>

fun map_assign :: "wstring \<Rightarrow> 'v \<Rightarrow> (wstring \<times> 'v) list \<Rightarrow> (wstring \<times> 'v) list" where
  "map_assign k v [] = [(k, v)]"
| "map_assign k v ((k', v') # m) =
     (if k = k' then (k, v) # m
      else if k < k' then (k, v) # (k', v') # m
      else (k', v') # map_assign k v m)"

definition map_erase :: "wstring \<Rightarrow> (wstring \<times> 'v) list \<Rightarrow> (wstring \<times> 'v) list" where
  "map_erase k m = filter (\<lambda>p. fst p \<noteq> k) m"

definition map_at :: "(wstring \<times> 'v) list \<Rightarrow> wstring \<Rightarrow> error + 'v" where
  "map_at m k = (case map_of m k of None \<Rightarrow> Inl OutOfRange | Some v \<Rightarrow> Inr v)"

text \<open>The map from UID to leaf variable that the two loops over \<^verbatim>\<open>Inputs()\<close> build.\<close>

definition leaf_variables_map :: "Variable list \<Rightarrow> (wstring \<times> Variable) list" where
  "leaf_variables_map leafVariables =
     fold (\<lambda>leafVar m. map_assign (Uid leafVar) leafVar m) leafVariables []"

text \<open>
  The lambda \<^verbatim>\<open>removePastAndFutureValueInitialStateScalarConstants\<close>: the second input
  of every PastValue and FutureValue function is erased from the map when it is a constant
  of total size one.
\<close>

fun removePastAndFutureValueInitialStateScalarConstants ::
  "collaborators \<Rightarrow> PrimitiveFunction list \<Rightarrow> (wstring \<times> Variable) list \<Rightarrow>
     error + (wstring \<times> Variable) list" where
  "removePastAndFutureValueInitialStateScalarConstants env [] modelLeafVariableMap =
     Inr modelLeafVariableMap"
| "removePastAndFutureValueInitialStateScalarConstants env (primitiveFunction # rest)
     modelLeafVariableMap =
     (if OpType primitiveFunction = PastValue \<or> OpType primitiveFunction = FutureValue then
        (case drop 1 (prim_Inputs primitiveFunction) of
           [] \<Rightarrow> Inl UndefinedBehaviour
         | initialStateInput # _ \<Rightarrow>
             if IsConstant initialStateInput \<and> TotalSize env (Shape initialStateInput) = 1
             then removePastAndFutureValueInitialStateScalarConstants env rest
                    (map_erase (Uid initialStateInput) modelLeafVariableMap)
             else removePastAndFutureValueInitialStateScalarConstants env rest
                    modelLeafVariableMap)
      else removePastAndFutureValueInitialStateScalarConstants env rest modelLeafVariableMap)"

definition areVariablesEquivalent :: "collaborators \<Rightarrow> Variable \<Rightarrow> Variable \<Rightarrow> bool" where
  "areVariablesEquivalent env left right =
     (Kind left = Kind right \<and>
      (Shape left = Shape right \<or>
       AsTensorShape env (Shape left) = AsTensorShape env (Shape right)) \<and>
      GetDataType left = GetDataType right \<and>
      length (DynamicAxes left) = length (DynamicAxes right) \<and>
      NeedsGradient left = NeedsGradient right \<and>
      Uid left = Uid right \<and>
      IsSparse left = IsSparse right)"

text \<open>\<^verbatim>\<open>v.IsConstant() ? Constant(v).Value() : Parameter(v).Value()\<close>\<close>

definition value_of :: "Variable \<Rightarrow> value_ref" where
  "value_of v = (if IsConstant v then ConstantValue v else ParameterValue v)"

text \<open>
  The loop that updates the trainer's parameters and constants, over the entries of the
  trainer's map that are still to be visited.
\<close>

fun update_leaf_variables ::
  "collaborators \<Rightarrow> (wstring \<times> Variable) list \<Rightarrow> (wstring \<times> Variable) list \<Rightarrow> trace \<Rightarrow>
     (error + unit) \<times> trace" where
  "update_leaf_variables env loadedModelLeafVariablesMap [] h = (Inr (), h)"
| "update_leaf_variables env loadedModelLeafVariablesMap (nameVarPair # rest) h =
     (let trainerModelLeafVar = snd nameVarPair
      in case map_at loadedModelLeafVariablesMap (Uid trainerModelLeafVar) of
           Inl e \<Rightarrow> (Inl e, h)
         | Inr correspondingLoadedModelVar \<Rightarrow>
             if \<not> areVariablesEquivalent env correspondingLoadedModelVar trainerModelLeafVar
             then (Inl InvalidArgument, h)
             else if IsConstant trainerModelLeafVar \<or> IsParameter trainerModelLeafVar then
               update_leaf_variables env loadedModelLeafVariablesMap rest
                 (h @ [ECopyFrom (value_of trainerModelLeafVar)
                         (value_of correspondingLoadedModelVar)])
             else update_leaf_variables env loadedModelLeafVariablesMap rest h)"

definition RestoreFromCheckpoint ::
  "collaborators \<Rightarrow> Trainer \<Rightarrow> wstring \<Rightarrow> trace \<Rightarrow> (error + unit) \<times> Trainer \<times> trace" where
  "RestoreFromCheckpoint env t modelFilePath h =
     (case m_parameterLearners t of
        [] \<Rightarrow> (Inl UndefinedBehaviour, t, h)
      | firstLearner # _ \<Rightarrow>
          (case fn_Outputs (m_combinedTrainingFunction t) of
             [] \<Rightarrow> (Inl UndefinedBehaviour, t, h)
           | output0 # _ \<Rightarrow>
               let loadedModelFunction =
                     LoadLegacyModel env h (GetDataType output0) modelFilePath CPUDevice;
                   h1 = h @ [ELoadLegacyModel (GetDataType output0) modelFilePath CPUDevice];
                   loadedModelLeafVariables = fn_Inputs loadedModelFunction;
                   trainerModelLeafVariables = fn_Inputs (m_combinedTrainingFunction t)
               in if length trainerModelLeafVariables \<noteq> length loadedModelLeafVariables
                  then (Inl InvalidArgument, t, h1)
                  else
                    (case removePastAndFutureValueInitialStateScalarConstants env
                            (m_allPrimitiveFunctions loadedModelFunction)
                            (leaf_variables_map loadedModelLeafVariables) of
                       Inl e \<Rightarrow> (Inl e, t, h1)
                     | Inr loadedModelLeafVariablesMap \<Rightarrow>
                         (case removePastAndFutureValueInitialStateScalarConstants env
                                 (m_allPrimitiveFunctions (m_combinedTrainingFunction t))
                                 (leaf_variables_map trainerModelLeafVariables) of
                            Inl e \<Rightarrow> (Inl e, t, h1)
                          | Inr trainerModelLeafVariablesMap \<Rightarrow>
                              (case update_leaf_variables env loadedModelLeafVariablesMap
                                      trainerModelLeafVariablesMap h1 of
                                 (Inl e, h2) \<Rightarrow> (Inl e, t, h2)
                               | (Inr _, h2) \<Rightarrow>
                                   if length (m_parameterLearners t) > 1
                                   then (Inl LogicError, t, h2)
                                   else
                                     let trainerStateCheckpointFilePath =
                                           GetTrainerStateCheckpointFilePath modelFilePath;
                                         (ckpStream, h3) =
                                           GetFstream trainerStateCheckpointFilePath True h2;
                                         learnerState = StreamRead env h3 (stream_path ckpStream);
                                         h4 = h3 @ [EStreamRead (stream_path ckpStream)];
                                         h5 = h4 @ [ERestoreFromCheckpoint firstLearner
                                                      learnerState]
                                     in (Inr (), t, h5))))))"

section \<open>Observations on traces\<close>

fun stream_writes :: "trace \<Rightarrow> wstring list" where
  "stream_writes [] = []"
| "stream_writes (EStreamWrite p d # h) = p # stream_writes h"
| "stream_writes (_ # h) = stream_writes h"

fun stream_reads :: "trace \<Rightarrow> wstring list" where
  "stream_reads [] = []"
| "stream_reads (EStreamRead p # h) = p # stream_reads h"
| "stream_reads (_ # h) = stream_reads h"

fun is_copy :: "event \<Rightarrow> bool" where
  "is_copy (ECopyFrom _ _) = True"
| "is_copy _ = False"

fun is_update :: "event \<Rightarrow> bool" where
  "is_update (EUpdate _ _ _ _) = True"
| "is_update _ = False"

text \<open>
  The initial states that \<^verbatim>\<open>removePastAndFutureValueInitialStateScalarConstants\<close> takes
  out of a map of leaf variables: the second input of a PastValue or FutureValue function,
  when it is a constant of total size one. The retained leaves of a function are its leaf
  variables other than these.
\<close>

definition initial_state_scalar_constants ::
  "collaborators \<Rightarrow> PrimitiveFunction \<Rightarrow> Variable list" where
  "initial_state_scalar_constants env primitiveFunction =
     (if OpType primitiveFunction = PastValue \<or> OpType primitiveFunction = FutureValue
      then filter (\<lambda>i. IsConstant i \<and> TotalSize env (Shape i) = 1)
             (take 1 (drop 1 (prim_Inputs primitiveFunction)))
      else [])"

definition initial_state_uids :: "collaborators \<Rightarrow> PrimitiveFunction list \<Rightarrow> wstring list" where
  "initial_state_uids env primitiveFunctions =
     map Uid (concat (map (initial_state_scalar_constants env) primitiveFunctions))"

definition retained_leaves :: "collaborators \<Rightarrow> Function \<Rightarrow> Variable list" where
  "retained_leaves env f =
     filter (\<lambda>v. Uid v \<notin> set (initial_state_uids env (m_allPrimitiveFunctions f)))
       (fn_Inputs f)"

text \<open>
  Two leaf variables differ when they differ in kind, in shape (both as shapes and as
  tensor shapes), in data type, in the number of dynamic axes, in the needs-gradient flag
  or in sparsity.
\<close>

definition leaves_differ :: "collaborators \<Rightarrow> Variable \<Rightarrow> Variable \<Rightarrow> bool" where
  "leaves_differ env left right \<longleftrightarrow>
     Kind left \<noteq> Kind right \<or>
     (Shape left \<noteq> Shape right \<and>
      AsTensorShape env (Shape left) \<noteq> AsTensorShape env (Shape right)) \<or>
     GetDataType left \<noteq> GetDataType right \<or>
     length (DynamicAxes left) \<noteq> length (DynamicAxes right) \<or>
     NeedsGradient left \<noteq> NeedsGradient right \<or>
     IsSparse left \<noteq> IsSparse right"

text \<open>
  A map of gradient data is that of a learner's own parameters when its keys are the
  learner's parameters, each once, and each key is mapped to the data of the gradient
  value that \<^verbatim>\<open>Backward\<close> produced for that parameter.
\<close>

definition gradient_data_of ::
  "(Variable, ValuePtr) umap \<Rightarrow> Learner \<Rightarrow> (Variable, NDArrayView) umap \<Rightarrow> bool" where
  "gradient_data_of parameterGradients learner g \<longleftrightarrow>
     distinct (map fst g) \<and> fst ` set g = set (learner_Parameters learner) \<and>
     (\<forall>parameter \<in> set (learner_Parameters learner).
        \<exists>gradient. umap_index parameterGradients parameter = Some gradient \<and>
                   map_of g parameter = Some (Data gradient))"

text \<open>The event of one call of \<^verbatim>\<open>Update\<close>: the learner, its gradients, what it returned.\<close>

definition update_event :: "size_t \<Rightarrow> Learner \<times> (Variable, NDArrayView) umap \<times> bool \<Rightarrow> event" where
  "update_event n c = EUpdate (fst c) (fst (snd c)) n (snd (snd c))"

section \<open>Trainers over time\<close>

text \<open>
  The trainers that a given trainer can become: after any number of calls of its member
  functions, with any arguments and on any trace, whether the calls return or raise.
\<close>

inductive reachable :: "collaborators \<Rightarrow> Trainer \<Rightarrow> Trainer \<Rightarrow> bool" for env t0 where
  constructed: "reachable env t0 t0"
| trained: "reachable env t0 t \<Longrightarrow> TrainMinibatch env t arguments computeDevice h = (r, t', h')
     \<Longrightarrow> reachable env t0 t'"
| tested: "reachable env t0 t \<Longrightarrow> TestMinbatch env t arguments computeDevice h = (q, t', h')
     \<Longrightarrow> reachable env t0 t'"
| saved: "reachable env t0 t \<Longrightarrow> SaveCheckpoint env t modelFilePath h = (u, t', h')
     \<Longrightarrow> reachable env t0 t'"
| restored: "reachable env t0 t \<Longrightarrow> RestoreFromCheckpoint env t modelFilePath h = (u, t', h')
     \<Longrightarrow> reachable env t0 t'"

section \<open>A small trainer\<close>

text \<open>
  A network with one input, one label, one weight and a delay (a PastValue function whose
  initial state is a scalar constant), trained by one learner. The theorems below are
  instantiated on it.
\<close>

definition batchAxis :: Axis where
  "batchAxis = DynamicAxis (L ''batch'')"

definition features :: Variable where
  "features = \<lparr>Uid = L ''x'', Name = L ''features'', Kind = Input, Shape = [2],
      GetDataType = Float, DynamicAxes = [batchAxis], NeedsGradient = False, IsSparse = False\<rparr>"

definition labels :: Variable where
  "labels = \<lparr>Uid = L ''y'', Name = L ''labels'', Kind = Input, Shape = [1],
      GetDataType = Float, DynamicAxes = [batchAxis], NeedsGradient = False, IsSparse = False\<rparr>"

definition weights :: Variable where
  "weights = \<lparr>Uid = L ''w'', Name = L ''weights'', Kind = Parameter, Shape = [2],
      GetDataType = Float, DynamicAxes = [], NeedsGradient = True, IsSparse = False\<rparr>"

definition initialState :: Variable where
  "initialState = \<lparr>Uid = L ''c'', Name = L ''initialState'', Kind = Constant, Shape = [1],
      GetDataType = Float, DynamicAxes = [], NeedsGradient = False, IsSparse = False\<rparr>"

definition prediction :: Variable where
  "prediction = \<lparr>Uid = L ''z'', Name = L ''prediction'', Kind = Output, Shape = [1],
      GetDataType = Float, DynamicAxes = [batchAxis], NeedsGradient = True, IsSparse = False\<rparr>"

definition lossOutput :: Variable where
  "lossOutput = \<lparr>Uid = L ''loss'', Name = L ''loss'', Kind = Output, Shape = [1],
      GetDataType = Float, DynamicAxes = [batchAxis], NeedsGradient = True, IsSparse = False\<rparr>"

definition errorOutput :: Variable where
  "errorOutput = \<lparr>Uid = L ''err'', Name = L ''error'', Kind = Output, Shape = [1],
      GetDataType = Float, DynamicAxes = [batchAxis], NeedsGradient = False, IsSparse = False\<rparr>"

definition delay :: PrimitiveFunction where
  "delay = \<lparr>OpType = PastValue, prim_Inputs = [features, initialState]\<rparr>"

definition networkFunction :: "Variable \<Rightarrow> Variable list \<Rightarrow> Variable list \<Rightarrow> Function" where
  "networkFunction out outs args =
     \<lparr>fn_Output = out, fn_Outputs = outs, fn_Arguments = args,
      fn_Inputs = args @ [weights, initialState], fn_Parameters = [weights],
      m_allPrimitiveFunctions = [delay]\<rparr>"

definition smallModel :: Function where
  "smallModel = networkFunction prediction [prediction] [features]"

definition smallLoss :: Function where
  "smallLoss = networkFunction lossOutput [lossOutput] [labels, features]"

definition smallEvaluation :: Function where
  "smallEvaluation = networkFunction errorOutput [errorOutput] [labels, features]"

definition smallCombined :: Function where
  "smallCombined =
     networkFunction prediction [prediction, lossOutput, errorOutput] [features, labels]"

definition sgd :: Learner where
  "sgd = \<lparr>learner_id = 1, learner_Parameters = [weights]\<rparr>"

definition floatView :: "NDShape \<Rightarrow> real \<Rightarrow> NDArrayView" where
  "floatView sh r = \<lparr>view_DataType = Float, view_Shape = sh, view_Device = CPUDevice,
      view_Storage = Filled (FloatVal r)\<rparr>"

text \<open>A minibatch of four samples, one of them masked.\<close>

definition minibatch :: "(Variable, ValuePtr) umap" where
  "minibatch =
     [(features, Some \<lparr>Data = floatView [2, 4] 0, Mask = Some \<lparr>MaskedCount = 1\<rparr>\<rparr>),
      (labels, Some \<lparr>Data = floatView [1, 4] 1, Mask = Some \<lparr>MaskedCount = 1\<rparr>\<rparr>)]"

text \<open>
  Collaborators for the small trainer: every requested output is the aggregate value 6,
  every requested gradient is a vector of halves, the learner always updates, and the model
  loaded from a file is the combined function itself. The three shape helpers are the
  product of the dimensions, the dimensions from an axis on, and the padding to rank one.
\<close>

definition smallWorld :: collaborators where
  "smallWorld =
     \<lparr>Combine = (\<lambda>_. smallCombined),
      Forward = (\<lambda>_ _ _ outputs _ _.
         (0, map (\<lambda>p. (fst p, Some \<lparr>Data = floatView [1] 6, Mask = None\<rparr>)) outputs)),
      Backward = (\<lambda>_ _ _ _ gradients.
         map (\<lambda>p. (fst p, Some \<lparr>Data = floatView [2] (1/2), Mask = None\<rparr>)) gradients),
      Update = (\<lambda>_ _ _ _. True),
      GetCheckpointState = (\<lambda>_ _. Dictionary [(L ''step'', 7)]),
      LoadLegacyModel = (\<lambda>_ _ _ _. smallCombined),
      StreamRead = (\<lambda>_ _. Dictionary [(L ''step'', 7)]),
      TotalSize = (\<lambda>sh. fold (\<lambda>d n. n * d) sh 1),
      SubShape = (\<lambda>sh b. if unat b \<le> length sh then Inr (drop (unat b) sh)
                          else Inl InvalidArgument),
      AsTensorShape = (\<lambda>sh. if sh = [] then [1] else sh)\<rparr>"

definition smallTrainer :: Trainer where
  "smallTrainer =
     \<lparr>m_model = smallModel, m_lossFunction = smallLoss,
      m_evaluationFunction = Some smallEvaluation,
      m_combinedTrainingFunction = smallCombined,
      m_parameterLearners = [sgd],
      m_prevMinibatchNumSamples = 1,
      m_prevMinibatchAggregateTrainingLossValue = None,
      m_prevMinibatchAggregateEvalCriterionValue = None\<rparr>"

text \<open>The same trainer with a second learner, which covers no parameter.\<close>

definition momentum :: Learner where
  "momentum = \<lparr>learner_id = 2, learner_Parameters = []\<rparr>"

definition twoLearnerTrainer :: Trainer where
  "twoLearnerTrainer = smallTrainer\<lparr>m_parameterLearners := [sgd, momentum]\<rparr>"

text \<open>The small trainer as the constructor without an evaluation function builds it.\<close>

definition noEvaluationTrainer :: Trainer where
  "noEvaluationTrainer = smallTrainer\<lparr>m_evaluationFunction := None\<rparr>"

text \<open>The small trainer after one call of TrainMinibatch on the minibatch.\<close>

definition trainedTrainer :: Trainer where
  "trainedTrainer =
     smallTrainer\<lparr>m_prevMinibatchNumSamples := 3,
       m_prevMinibatchAggregateTrainingLossValue :=
         Some \<lparr>Data = floatView [1] 6, Mask = None\<rparr>,
       m_prevMinibatchAggregateEvalCriterionValue :=
         Some \<lparr>Data = floatView [1] 6, Mask = None\<rparr>\<rparr>"

definition trainedTrace :: trace where
  "trainedTrace =
     [EForward smallCombined minibatch [(lossOutput, None), (errorOutput, None)] CPUDevice
        [lossOutput],
      EBackward smallCombined 0
        [(lossOutput,
          Some \<lparr>Data = \<lparr>view_DataType = Float, view_Shape = [1], view_Device = CPUDevice,
                         view_Storage = Filled (FloatVal 1)\<rparr>,
                Mask = None\<rparr>)]
        [(weights, None)],
      EUpdate sgd [(weights, floatView [2] (1/2))] 3 True]"

text \<open>A minibatch whose mask claims more masked samples than the data holds.\<close>

definition overmaskedMinibatch :: "(Variable, ValuePtr) umap" where
  "overmaskedMinibatch =
     [(features, Some \<lparr>Data = floatView [2, 4] 0, Mask = Some \<lparr>MaskedCount = 5\<rparr>\<rparr>),
      (labels, Some \<lparr>Data = floatView [1, 4] 1, Mask = Some \<lparr>MaskedCount = 5\<rparr>\<rparr>)]"

text \<open>What RestoreFromCheckpoint on the small trainer calls, from the model file "m".\<close>

definition restoredTrace :: trace where
  "restoredTrace =
     [ELoadLegacyModel Float (L ''m'') CPUDevice,
      ECopyFrom (ParameterValue weights) (ParameterValue weights),
      EGetFstream (L ''m.ckp'') True,
      EStreamRead (L ''m.ckp''),
      ERestoreFromCheckpoint sgd (Dictionary [(L ''step'', 7)])]"

text \<open>
  Collaborators whose learners answer differently: in the first only the second learner
  reports an update, in the second none does.
\<close>

definition pickyWorld :: collaborators where
  "pickyWorld = smallWorld\<lparr>Update := (\<lambda>_ learner _ _. learner_id learner = 2)\<rparr>"

definition idleWorld :: collaborators where
  "idleWorld = smallWorld\<lparr>Update := (\<lambda>_ _ _ _. False)\<rparr>"

text \<open>
  Collaborators whose Forward yields, for every requested output, the double 9 held on a
  GPU.
\<close>

definition doubleWorld :: collaborators where
  "doubleWorld =
     smallWorld\<lparr>Forward := (\<lambda>_ _ _ outputs _ _.
        (0, map (\<lambda>p. (fst p,
                        Some \<lparr>Data = \<lparr>view_DataType = Double, view_Shape = [1],
                                       view_Device = GPUDevice 0,
                                       view_Storage = Elements [DoubleVal 9]\<rparr>,
                              Mask = None\<rparr>)) outputs))\<rparr>"

text \<open>
  A network with a second parameter, and three more learners: one for the bias, one that
  covers the weights as \<open>sgd\<close> does, and the collaborators that combine to this network.
\<close>

definition bias :: Variable where
  "bias = \<lparr>Uid = L ''b'', Name = L ''bias'', Kind = Parameter, Shape = [1],
      GetDataType = Float, DynamicAxes = [], NeedsGradient = True, IsSparse = False\<rparr>"

definition biasedCombined :: Function where
  "biasedCombined =
     smallCombined\<lparr>fn_Inputs := [features, labels, weights, bias, initialState],
                    fn_Parameters := [weights, bias]\<rparr>"

definition biasLearner :: Learner where
  "biasLearner = \<lparr>learner_id = 3, learner_Parameters = [bias]\<rparr>"

definition rivalLearner :: Learner where
  "rivalLearner = \<lparr>learner_id = 4, learner_Parameters = [weights, bias]\<rparr>"

definition biasedWorld :: collaborators where
  "biasedWorld = smallWorld\<lparr>Combine := (\<lambda>_. biasedCombined)\<rparr>"

definition biasedTrainer :: Trainer where
  "biasedTrainer =
     smallTrainer\<lparr>m_combinedTrainingFunction := biasedCombined,
                   m_parameterLearners := [sgd, biasLearner]\<rparr>"

section \<open>Properties\<close>

text \<open>The definitions of the small trainer, for evaluating it.\<close>

lemmas small_defs = smallTrainer_def smallWorld_def smallCombined_def smallEvaluation_def
  smallLoss_def smallModel_def networkFunction_def sgd_def floatView_def minibatch_def delay_def
  features_def labels_def weights_def initialState_def prediction_def lossOutput_def
  errorOutput_def batchAxis_def L_def

subsection \<open>The constructor\<close>

lemma insert_parameters_cases:
  "insert_parameters ps acc =
     (if distinct ps \<and> set ps \<inter> set acc = {} then Inr (acc @ ps) else Inl InvalidArgument)"
  by (induction ps arbitrary: acc) auto

lemma collect_parameters_cases:
  "collect_parameters ls acc =
     (if distinct (concat (map learner_Parameters ls)) \<and>
         set (concat (map learner_Parameters ls)) \<inter> set acc = {}
      then Inr (acc @ concat (map learner_Parameters ls)) else Inl InvalidArgument)"
proof (induction ls arbitrary: acc)
  case Nil
  then show ?case by simp
next
  case (Cons l ls)
  show ?case
    by (simp add: insert_parameters_cases Cons.IH) blast
qed

lemma distinct_concat_pairwise:
  "distinct (concat xss) \<longleftrightarrow>
     (\<forall>xs \<in> set xss. distinct xs) \<and>
     (\<forall>i j. i < j \<and> j < length xss \<longrightarrow> set (xss ! i) \<inter> set (xss ! j) = {})"
proof (induction xss)
  case Nil
  then show ?case by simp
next
  case (Cons xs xss)
  have a: "(\<forall>i j. i < j \<and> j < length (xs # xss) \<longrightarrow> set ((xs # xss) ! i) \<inter> set ((xs # xss) ! j) = {})
        \<longleftrightarrow> (\<forall>ys \<in> set xss. set xs \<inter> set ys = {}) \<and>
            (\<forall>i j. i < j \<and> j < length xss \<longrightarrow> set (xss ! i) \<inter> set (xss ! j) = {})"
    (is "?L \<longleftrightarrow> ?A \<and> ?B")
  proof
    assume l: ?L
    have ?A
    proof
      fix ys assume "ys \<in> set xss"
      then obtain k where "k < length xss" "xss ! k = ys" by (auto simp: in_set_conv_nth)
      with l [rule_format, of 0 "Suc k"] show "set xs \<inter> set ys = {}" by simp
    qed
    moreover have ?B
    proof (intro allI impI)
      fix i j assume "i < j \<and> j < length xss"
      with l [rule_format, of "Suc i" "Suc j"] show "set (xss ! i) \<inter> set (xss ! j) = {}" by simp
    qed
    ultimately show "?A \<and> ?B" ..
  next
    assume r: "?A \<and> ?B"
    show ?L
    proof (intro allI impI)
      fix i j assume ij: "i < j \<and> j < length (xs # xss)"
      then obtain j' where j': "j = Suc j'" by (cases j) auto
      show "set ((xs # xss) ! i) \<inter> set ((xs # xss) ! j) = {}"
      proof (cases i)
        case 0
        with r ij j' show ?thesis by simp
      next
        case (Suc i')
        with r ij j' show ?thesis by simp
      qed
    qed
  qed
  show ?case
    unfolding distinct.simps concat.simps distinct_append Cons.IH a by auto
qed


lemma pairwise_nth_iff:
  assumes "distinct ls"
  shows "(\<forall>i j. i < j \<and> j < length (map f ls) \<longrightarrow> set (map f ls ! i) \<inter> set (map f ls ! j) = {})
     \<longleftrightarrow> (\<forall>l1 \<in> set ls. \<forall>l2 \<in> set ls. l1 \<noteq> l2 \<longrightarrow> set (f l1) \<inter> set (f l2) = {})"
    (is "?N \<longleftrightarrow> ?S")
proof
  assume n: ?N
  show ?S
  proof (intro ballI impI)
    fix l1 l2 assume "l1 \<in> set ls" "l2 \<in> set ls" "l1 \<noteq> l2"
    then obtain i j where ij: "i < length ls" "ls ! i = l1" "j < length ls" "ls ! j = l2"
      by (auto simp: in_set_conv_nth)
    with \<open>l1 \<noteq> l2\<close> have "i \<noteq> j" by auto
    then consider "i < j" | "j < i" by linarith
    then show "set (f l1) \<inter> set (f l2) = {}"
    proof cases
      case 1
      with n [rule_format, of i j] ij show ?thesis by simp
    next
      case 2
      with n [rule_format, of j i] ij show ?thesis by (simp add: Int_commute)
    qed
  qed
next
  assume s: ?S
  show ?N
  proof (intro allI impI)
    fix i j assume ij: "i < j \<and> j < length (map f ls)"
    then have "ls ! i \<noteq> ls ! j"
      using assms by (simp add: nth_eq_iff_index_eq)
    with s ij show "set (map f ls ! i) \<inter> set (map f ls ! j) = {}" by simp
  qed
qed

text \<open>What the constructor returns, and when it raises.\<close>

lemma Trainer_ctor_cases:
  assumes "distinct parameterLearners"
    and "\<forall>l \<in> set parameterLearners. distinct (learner_Parameters l)"
  shows
    "(Trainer_ctor env model lossFunction evaluationFunction parameterLearners = Inl InvalidArgument
        \<longleftrightarrow>
      (\<exists>l1 \<in> set parameterLearners. \<exists>l2 \<in> set parameterLearners.
          l1 \<noteq> l2 \<and> set (learner_Parameters l1) \<inter> set (learner_Parameters l2) \<noteq> {}) \<or>
      (\<Union>l \<in> set parameterLearners. set (learner_Parameters l)) \<noteq>
        set (fn_Parameters (Combine env [Some model, Some lossFunction, evaluationFunction]))) \<and>
     (\<forall>t. Trainer_ctor env model lossFunction evaluationFunction parameterLearners = Inr t \<longrightarrow>
        m_parameterLearners t = parameterLearners \<and>
        m_combinedTrainingFunction t =
          Combine env [Some model, Some lossFunction, evaluationFunction] \<and>
        (\<forall>l1 \<in> set (m_parameterLearners t). \<forall>l2 \<in> set (m_parameterLearners t).
           l1 \<noteq> l2 \<longrightarrow> set (learner_Parameters l1) \<inter> set (learner_Parameters l2) = {}) \<and>
        (\<Union>l \<in> set (m_parameterLearners t). set (learner_Parameters l)) =
          set (fn_Parameters (m_combinedTrainingFunction t)))"
proof -
  let ?ls = parameterLearners
  let ?disj = "\<forall>l1 \<in> set ?ls. \<forall>l2 \<in> set ?ls.
                 l1 \<noteq> l2 \<longrightarrow> set (learner_Parameters l1) \<inter> set (learner_Parameters l2) = {}"
  have d: "distinct (concat (map learner_Parameters ?ls)) \<longleftrightarrow> ?disj"
    using assms(2) pairwise_nth_iff [OF assms(1), of learner_Parameters]
    by (simp add: distinct_concat_pairwise)
  have u: "set (concat (map learner_Parameters ?ls)) = (\<Union>l \<in> set ?ls. set (learner_Parameters l))"
    by simp
  show ?thesis
  proof (cases ?disj)
    case True
    then have c: "collect_parameters ?ls [] = Inr (concat (map learner_Parameters ?ls))"
      using d by (simp add: collect_parameters_cases)
    show ?thesis
      using True unfolding Trainer_ctor_def Let_def c sum.case u
      by (auto split: if_splits)
  next
    case False
    then have c: "collect_parameters ?ls [] = Inl InvalidArgument"
      using d by (simp add: collect_parameters_cases)
    show ?thesis
      using False unfolding Trainer_ctor_def Let_def c sum.case
      by auto
  qed
qed

subsection \<open>Unordered maps and the loops of TrainMinibatch\<close>

lemma map_of_umap_assign: "map_of (umap_assign k v m) = (map_of m)(k \<mapsto> v)"
  by (induction m) (auto simp: fun_eq_iff)

lemma keys_umap_assign: "fst ` set (umap_assign k v m) = insert k (fst ` set m)"
proof (induction m)
  case Nil
  show ?case by simp
next
  case (Cons a m)
  obtain k' v' where a: "a = (k', v')" by (cases a)
  show ?case
  proof (cases "k = k'")
    case True
    then show ?thesis by (simp add: a)
  next
    case False
    then show ?thesis using Cons.IH by (simp add: a insert_commute)
  qed
qed

lemma distinct_umap_assign:
  "distinct (map fst m) \<Longrightarrow> distinct (map fst (umap_assign k v m))"
proof (induction m)
  case Nil
  then show ?case by simp
next
  case (Cons a m)
  have "fst ` set (umap_assign k v m) = insert k (fst ` set m)"
    by (rule keys_umap_assign)
  with Cons show ?case by (cases a) auto
qed

lemma set_umap_assign_const:
  "\<forall>p \<in> set m. snd p = c \<Longrightarrow> set (umap_assign k c m) = insert (k, c) (set m)"
proof (induction m)
  case Nil
  show ?case by simp
next
  case (Cons a m)
  obtain k' v' where a: "a = (k', v')" by (cases a)
  with Cons.prems have v': "v' = c" by simp
  from Cons have ih: "set (umap_assign k c m) = insert (k, c) (set m)" by simp
  show ?case
  proof (cases "k = k'")
    case True
    then show ?thesis by (simp add: a v')
  next
    case False
    then show ?thesis using ih by (simp add: a insert_commute)
  qed
qed

lemma fold_umap_assign_const:
  "distinct (map fst m) \<Longrightarrow> \<forall>p \<in> set m. snd p = c \<Longrightarrow>
   distinct (map fst (fold (\<lambda>k. umap_assign k c) ks m)) \<and>
   set (fold (\<lambda>k. umap_assign k c) ks m) = set m \<union> (\<lambda>k. (k, c)) ` set ks"
proof (induction ks arbitrary: m)
  case Nil
  then show ?case by simp
next
  case (Cons k ks)
  have d: "distinct (map fst (umap_assign k c m))"
    using Cons.prems(1) by (rule distinct_umap_assign)
  have s: "set (umap_assign k c m) = insert (k, c) (set m)"
    using Cons.prems(2) by (rule set_umap_assign_const)
  then have a: "\<forall>p \<in> set (umap_assign k c m). snd p = c"
    using Cons.prems(2) by simp
  from Cons.IH [OF d a] s show ?case by auto
qed

lemma learner_gradients_Inr:
  "learner_gradients pg ps acc = Inr g \<Longrightarrow> distinct (map fst acc) \<Longrightarrow>
   distinct (map fst g) \<and> fst ` set g = fst ` set acc \<union> set ps \<and>
   (\<forall>p \<in> set ps. \<exists>gradient. umap_index pg p = Some gradient \<and>
      map_of g p = Some (Data gradient)) \<and>
   (\<forall>k. k \<notin> set ps \<longrightarrow> map_of g k = map_of acc k)"
proof (induction ps arbitrary: acc)
  case Nil
  then show ?case by simp
next
  case (Cons p ps)
  from Cons.prems(1) obtain gradient where
    gr: "umap_index pg p = Some gradient" and
    rec: "learner_gradients pg ps (umap_assign p (Data gradient) acc) = Inr g"
    by (auto simp: Let_def split: option.splits if_splits)
  have d: "distinct (map fst (umap_assign p (Data gradient) acc))"
    using Cons.prems(2) by (rule distinct_umap_assign)
  note ih = Cons.IH [OF rec d]
  from ih have 1: "distinct (map fst g)" by simp
  from ih have 2: "fst ` set g = fst ` set acc \<union> set (p # ps)"
    by (simp add: keys_umap_assign)
  from ih have 4: "\<forall>k. k \<notin> set (p # ps) \<longrightarrow> map_of g k = map_of acc k"
    by (simp add: map_of_umap_assign)
  have 3: "\<forall>q \<in> set (p # ps). \<exists>gradient. umap_index pg q = Some gradient \<and>
             map_of g q = Some (Data gradient)"
  proof
    fix q assume q: "q \<in> set (p # ps)"
    show "\<exists>gradient. umap_index pg q = Some gradient \<and> map_of g q = Some (Data gradient)"
    proof (cases "q \<in> set ps")
      case True
      with ih show ?thesis by blast
    next
      case False
      with q have "q = p" by simp
      moreover from ih False have "map_of g q = map_of (umap_assign p (Data gradient) acc) q"
        by blast
      ultimately show ?thesis using gr by (simp add: map_of_umap_assign)
    qed
  qed
  from 1 2 3 4 show ?case by blast
qed

lemma learner_gradients_data:
  assumes "learner_gradients pg (learner_Parameters learner) [] = Inr g"
  shows "gradient_data_of pg learner g"
proof -
  have "distinct (map fst ([] :: (Variable, NDArrayView) umap))" by simp
  note r = learner_gradients_Inr [OF assms this]
  from r have a: "distinct (map fst g)" by (rule conjunct1)
  from r have b: "fst ` set g = set (learner_Parameters learner)" by simp
  from r have c: "\<forall>p \<in> set (learner_Parameters learner).
      \<exists>gradient. umap_index pg p = Some gradient \<and> map_of g p = Some (Data gradient)"
    by (elim conjE)
  from a b c show ?thesis unfolding gradient_data_of_def by (intro conjI)
qed

lemma update_learners_trace:
  "update_learners env pg n ls any h = (r, h') \<Longrightarrow>
     \<exists>us. h' = h @ us \<and> (\<forall>e \<in> set us. \<exists>l g u. e = EUpdate l g n u)"
proof (induction ls arbitrary: any h)
  case Nil
  then show ?case by simp
next
  case (Cons l ls)
  show ?case
  proof (cases "learner_gradients pg (learner_Parameters l) []")
    case (Inl e)
    with Cons.prems show ?thesis by simp
  next
    case (Inr g)
    with Cons.prems have "update_learners env pg n ls (any \<or> Update env h l g n)
        (h @ [EUpdate l g n (Update env h l g n)]) = (r, h')"
      by (simp add: Let_def)
    from Cons.IH [OF this] obtain us where
      "h' = (h @ [EUpdate l g n (Update env h l g n)]) @ us"
      "\<forall>e \<in> set us. \<exists>l g u. e = EUpdate l g n u"
      by blast
    then have "h' = h @ (EUpdate l g n (Update env h l g n) # us) \<and>
        (\<forall>e \<in> set (EUpdate l g n (Update env h l g n) # us). \<exists>l g u. e = EUpdate l g n u)"
      by simp
    then show ?thesis by blast
  qed
qed

lemma update_learners_Inr:
  "update_learners env pg n ls any h = (Inr b, h') \<Longrightarrow>
     \<exists>calls. map fst calls = ls \<and> h' = h @ map (update_event n) calls \<and>
       (\<forall>c \<in> set calls. gradient_data_of pg (fst c) (fst (snd c))) \<and>
       (\<forall>i < length calls.
          snd (snd (calls ! i)) =
            Update env (h @ map (update_event n) (take i calls))
              (fst (calls ! i)) (fst (snd (calls ! i))) n) \<and>
       (b \<longleftrightarrow> any \<or> (\<exists>c \<in> set calls. snd (snd c)))"
proof (induction ls arbitrary: any h)
  case Nil
  then have "map fst [] = ([] :: Learner list) \<and> h' = h @ map (update_event n) [] \<and>
       (\<forall>c \<in> set ([] :: (Learner \<times> (Variable, NDArrayView) umap \<times> bool) list).
           gradient_data_of pg (fst c) (fst (snd c))) \<and>
       (\<forall>i < length ([] :: (Learner \<times> (Variable, NDArrayView) umap \<times> bool) list).
          snd (snd ([] ! i)) =
            Update env (h @ map (update_event n) (take i []))
              (fst ([] ! i)) (fst (snd ([] ! i))) n) \<and>
       (b \<longleftrightarrow> any \<or> (\<exists>c \<in> set ([] :: (Learner \<times> (Variable, NDArrayView) umap \<times> bool) list).
           snd (snd c)))"
    by simp
  then show ?case by (rule exI)
next
  case (Cons l ls)
  from Cons.prems obtain g where g: "learner_gradients pg (learner_Parameters l) [] = Inr g"
    by (cases "learner_gradients pg (learner_Parameters l) []") simp_all
  define u where "u = Update env h l g n"
  from Cons.prems g have "update_learners env pg n ls (any \<or> u) (h @ [EUpdate l g n u]) = (Inr b, h')"
    by (simp add: Let_def u_def)
  from Cons.IH [OF this] obtain calls where c:
    "map fst calls = ls" "h' = (h @ [EUpdate l g n u]) @ map (update_event n) calls"
    "\<forall>c \<in> set calls. gradient_data_of pg (fst c) (fst (snd c))"
    "\<forall>i < length calls.
          snd (snd (calls ! i)) =
            Update env ((h @ [EUpdate l g n u]) @ map (update_event n) (take i calls))
              (fst (calls ! i)) (fst (snd (calls ! i))) n"
    "b \<longleftrightarrow> (any \<or> u) \<or> (\<exists>c \<in> set calls. snd (snd c))"
    by blast
  let ?calls = "(l, g, u) # calls"
  have 1: "map fst ?calls = l # ls" using c(1) by simp
  have 2: "h' = h @ map (update_event n) ?calls" using c(2) by (simp add: update_event_def)
  have 3: "\<forall>c \<in> set ?calls. gradient_data_of pg (fst c) (fst (snd c))"
    using c(3) learner_gradients_data [OF g] by simp
  have 4: "\<forall>i < length ?calls.
          snd (snd (?calls ! i)) =
            Update env (h @ map (update_event n) (take i ?calls))
              (fst (?calls ! i)) (fst (snd (?calls ! i))) n"
  proof (intro allI impI)
    fix i assume i: "i < length ?calls"
    show "snd (snd (?calls ! i)) =
            Update env (h @ map (update_event n) (take i ?calls))
              (fst (?calls ! i)) (fst (snd (?calls ! i))) n"
    proof (cases i)
      case 0
      then show ?thesis by (simp add: u_def)
    next
      case (Suc j)
      with i have "j < length calls" by simp
      with c(4) have "snd (snd (calls ! j)) =
            Update env ((h @ [EUpdate l g n u]) @ map (update_event n) (take j calls))
              (fst (calls ! j)) (fst (snd (calls ! j))) n"
        by blast
      with Suc show ?thesis by (simp add: update_event_def)
    qed
  qed
  have 5: "b \<longleftrightarrow> any \<or> (\<exists>c \<in> set ?calls. snd (snd c))" using c(5) by auto
  from 1 2 3 4 5 have "map fst ?calls = l # ls \<and> h' = h @ map (update_event n) ?calls \<and>
       (\<forall>c \<in> set ?calls. gradient_data_of pg (fst c) (fst (snd c))) \<and>
       (\<forall>i < length ?calls.
          snd (snd (?calls ! i)) =
            Update env (h @ map (update_event n) (take i ?calls))
              (fst (?calls ! i)) (fst (snd (?calls ! i))) n) \<and>
       (b \<longleftrightarrow> any \<or> (\<exists>c \<in> set ?calls. snd (snd c)))"
    by (intro conjI)
  then show ?case by (rule exI)
qed

text \<open>The four ways in which TrainMinibatch ends.\<close>

lemma TrainMinibatch_cases:
  fixes env t arguments computeDevice h
  defines "lossVar \<equiv> fn_Output (m_lossFunction t)"
    and "combined \<equiv> m_combinedTrainingFunction t"
  defines "answer \<equiv>
      Forward env h combined arguments (requested_outputs t) computeDevice [lossVar]"
    and "h1 \<equiv> h @ [EForward combined arguments (requested_outputs t) computeDevice [lossVar]]"
    and "pg0 \<equiv> fold (\<lambda>parameter m. umap_assign parameter None m) (fn_Parameters combined) []"
  assumes run: "TrainMinibatch env t arguments computeDevice h = (r, t', h')"
  obtains
    (null) "umap_index (snd answer) lossVar = None" "r = Inl UndefinedBehaviour" "h' = h1"
  | (noarg) lossValue where "umap_index (snd answer) lossVar = Some lossValue"
      "fn_Arguments (m_lossFunction t) = []" "r = Inl UndefinedBehaviour"
      "h' = h1 @ [EBackward combined (fst answer)
                    [(lossVar, Some (rootGradientValue t lossValue computeDevice))] pg0]"
  | (count) lossValue firstArgument others e where
      "umap_index (snd answer) lossVar = Some lossValue"
      "fn_Arguments (m_lossFunction t) = firstArgument # others"
      "GetSampleCountFromArguments env firstArgument arguments = Inl e" "r = Inl e"
      "h' = h1 @ [EBackward combined (fst answer)
                    [(lossVar, Some (rootGradientValue t lossValue computeDevice))] pg0]"
  | (loop) lossValue firstArgument others n where
      "umap_index (snd answer) lossVar = Some lossValue"
      "fn_Arguments (m_lossFunction t) = firstArgument # others"
      "GetSampleCountFromArguments env firstArgument arguments = Inr n"
      "m_prevMinibatchNumSamples t' = n"
      "update_learners env
         (Backward env h1 combined (fst answer)
            [(lossVar, Some (rootGradientValue t lossValue computeDevice))] pg0)
         n (m_parameterLearners t) False
         (h1 @ [EBackward combined (fst answer)
                  [(lossVar, Some (rootGradientValue t lossValue computeDevice))] pg0])
       = (r, h')"
proof -
  obtain bp outs where fw: "answer = (bp, outs)" by (cases answer)
  define t1 where
    "t1 = t\<lparr>m_prevMinibatchAggregateTrainingLossValue := umap_index outs lossVar\<rparr>"
  define t2 where
    "t2 = (case m_evaluationFunction t of
             None \<Rightarrow> t1
           | Some evaluationFunction \<Rightarrow>
               t1\<lparr>m_prevMinibatchAggregateEvalCriterionValue :=
                     umap_index outs (fn_Output evaluationFunction)\<rparr>)"
  have t2: "m_prevMinibatchAggregateTrainingLossValue t2 = umap_index outs lossVar"
    "m_parameterLearners t2 = m_parameterLearners t"
    by (simp_all add: t2_def t1_def split: option.splits)
  note run' = run [unfolded TrainMinibatch_def Let_def, folded lossVar_def combined_def,
      folded answer_def h1_def pg0_def, unfolded fw prod.case, folded t1_def, folded t2_def,
      unfolded t2]
  show ?thesis
  proof (cases "umap_index outs lossVar")
    case None
    with run' have "r = Inl UndefinedBehaviour" "h' = h1" by simp_all
    with None fw show ?thesis by (intro null) simp_all
  next
    case (Some lossValue)
    note run'' = run' [unfolded Some option.case]
    show ?thesis
    proof (cases "fn_Arguments (m_lossFunction t)")
      case Nil
      with run'' have "r = Inl UndefinedBehaviour"
        "h' = h1 @ [EBackward combined bp
                      [(lossVar, Some (rootGradientValue t lossValue computeDevice))] pg0]"
        by simp_all
      with Some Nil fw show ?thesis by (intro noarg [of lossValue]) simp_all
    next
      case (Cons firstArgument others)
      note run3 = run'' [unfolded Cons list.case]
      show ?thesis
      proof (cases "GetSampleCountFromArguments env firstArgument arguments")
        case (Inl e)
        with run3 have "r = Inl e"
          "h' = h1 @ [EBackward combined bp
                        [(lossVar, Some (rootGradientValue t lossValue computeDevice))] pg0]"
          by simp_all
        with Some Cons Inl fw show ?thesis
          by (intro count [of lossValue firstArgument others e]) simp_all
      next
        case (Inr n)
        note run4 = run3 [unfolded Inr sum.case]
        from run4 have "m_prevMinibatchNumSamples t' = n"
          by (auto split: prod.splits)
        moreover from run4 have "update_learners env
           (Backward env h1 combined bp
              [(lossVar, Some (rootGradientValue t lossValue computeDevice))] pg0)
           n (m_parameterLearners t) False
           (h1 @ [EBackward combined bp
                    [(lossVar, Some (rootGradientValue t lossValue computeDevice))] pg0])
         = (r, h')"
          by (auto simp: t2 split: prod.splits)
        ultimately show ?thesis using Some Cons Inr fw
          by (intro loop [of lossValue firstArgument others n]) simp_all
      qed
    qed
  qed
qed


lemma requested_outputs_keys:
  "map fst (requested_outputs t) =
     fn_Output (m_lossFunction t) #
       (case m_evaluationFunction t of
          None \<Rightarrow> []
        | Some evaluationFunction \<Rightarrow>
            if fn_Output evaluationFunction = fn_Output (m_lossFunction t) then []
            else [fn_Output evaluationFunction])"
  by (simp add: requested_outputs_def umap_insert_def Let_def split: option.splits)

lemma requested_outputs_null: "\<forall>p \<in> set (requested_outputs t). snd p = None"
  by (simp add: requested_outputs_def umap_insert_def Let_def split: option.splits)

lemma rootGradientValue_one:
  "rootGradientValue t lossValue computeDevice =
     \<lparr>Data = \<lparr>view_DataType = GetDataType (fn_Output (m_lossFunction t)),
               view_Shape = view_Shape (Data lossValue),
               view_Device = computeDevice,
               view_Storage =
                 Filled (if GetDataType (fn_Output (m_lossFunction t)) = Float then FloatVal 1
                         else DoubleVal 1)\<rparr>,
      Mask = Mask lossValue\<rparr>"
  by (simp add: rootGradientValue_def NDArrayView_new_def SetValue_def Let_def)

lemma requested_gradients:
  fixes ps :: "'k list"
  shows "distinct (map fst (fold (\<lambda>parameter m. umap_assign parameter (None :: 'v option) m)
                              ps [])) \<and>
         set (fold (\<lambda>parameter m. umap_assign parameter (None :: 'v option) m) ps []) =
           (\<lambda>p. (p, None)) ` set ps"
  using fold_umap_assign_const [of "[] :: ('k \<times> 'v option) list" None ps] by simp

lemma updates_are_updates:
  "\<forall>e \<in> set us. \<exists>l g u. e = EUpdate l g n u \<Longrightarrow> \<forall>e \<in> set us. is_update e"
  by auto

text \<open>
  Claim C1. Whatever TrainMinibatch goes on to do, its first call is Forward on the
  combined training function, with the loss output requested, and the evaluation output
  too when there is an evaluation function, both with null values to be filled in. When
  Forward has produced the loss value, the next call is Backward on the state that Forward
  returned, with one root gradient, at the loss output: a fresh view of the loss output's
  data type and the loss value's shape, filled with the float 1 when that data type is
  Float and with the double 1 otherwise, under the loss value's mask; the gradients
  requested are those of the parameters of the combined training function, each once and
  null. Every call after these two is a learner update. (When Forward leaves the loss
  value null, nothing is called after it.)
\<close>

theorem TrainMinibatch_forward_backward_before_updates:
  fixes env t arguments computeDevice h
  defines "lossVar \<equiv> fn_Output (m_lossFunction t)"
    and "combined \<equiv> m_combinedTrainingFunction t"
  defines "answer \<equiv>
      Forward env h combined arguments (requested_outputs t) computeDevice [lossVar]"
  assumes run: "TrainMinibatch env t arguments computeDevice h = (r, t', h')"
  shows "map fst (requested_outputs t) =
           lossVar #
             (case m_evaluationFunction t of
                None \<Rightarrow> []
              | Some evaluationFunction \<Rightarrow>
                  if fn_Output evaluationFunction = lossVar then []
                  else [fn_Output evaluationFunction]) \<and>
         (\<forall>p \<in> set (requested_outputs t). snd p = None) \<and>
         (\<exists>rest.
            h' = h @ EForward combined arguments (requested_outputs t) computeDevice [lossVar]
                       # rest \<and>
            (case umap_index (snd answer) lossVar of
               None \<Rightarrow> rest = []
             | Some lossValue \<Rightarrow>
                 \<exists>requested updates.
                   rest =
                     EBackward combined (fst answer)
                       [(lossVar,
                         Some \<lparr>Data = \<lparr>view_DataType = GetDataType lossVar,
                                        view_Shape = view_Shape (Data lossValue),
                                        view_Device = computeDevice,
                                        view_Storage =
                                          Filled (if GetDataType lossVar = Float then FloatVal 1
                                                  else DoubleVal 1)\<rparr>,
                               Mask = Mask lossValue\<rparr>)]
                       requested # updates \<and>
                   distinct (map fst requested) \<and>
                   set requested = (\<lambda>p. (p, None)) ` set (fn_Parameters combined) \<and>
                   (\<forall>e \<in> set updates. is_update e)))"
proof -
  let ?fw = "EForward combined arguments (requested_outputs t) computeDevice [lossVar]"
  let ?pg0 = "fold (\<lambda>parameter m. umap_assign parameter None m) (fn_Parameters combined) []"
  let ?P = "\<lambda>rest. h' = h @ ?fw # rest \<and>
            (case umap_index (snd answer) lossVar of
               None \<Rightarrow> rest = []
             | Some lossValue \<Rightarrow>
                 \<exists>requested updates.
                   rest =
                     EBackward combined (fst answer)
                       [(lossVar,
                         Some \<lparr>Data = \<lparr>view_DataType = GetDataType lossVar,
                                        view_Shape = view_Shape (Data lossValue),
                                        view_Device = computeDevice,
                                        view_Storage =
                                          Filled (if GetDataType lossVar = Float then FloatVal 1
                                                  else DoubleVal 1)\<rparr>,
                               Mask = Mask lossValue\<rparr>)]
                       requested # updates \<and>
                   distinct (map fst requested) \<and>
                   set requested = (\<lambda>p. (p, None)) ` set (fn_Parameters combined) \<and>
                   (\<forall>e \<in> set updates. is_update e))"
  have bw: "?P (EBackward combined (fst answer)
                  [(lossVar, Some (rootGradientValue t lossValue computeDevice))] ?pg0 # us)"
    if v: "umap_index (snd answer) lossVar = Some lossValue"
      and h': "h' = (h @ [?fw]) @
                 EBackward combined (fst answer)
                   [(lossVar, Some (rootGradientValue t lossValue computeDevice))] ?pg0 # us"
      and us: "\<forall>e \<in> set us. is_update e"
    for lossValue us
  proof -
    have rg: "rootGradientValue t lossValue computeDevice =
        \<lparr>Data = \<lparr>view_DataType = GetDataType lossVar,
                  view_Shape = view_Shape (Data lossValue),
                  view_Device = computeDevice,
                  view_Storage =
                    Filled (if GetDataType lossVar = Float then FloatVal 1 else DoubleVal 1)\<rparr>,
         Mask = Mask lossValue\<rparr>"
      unfolding lossVar_def by (rule rootGradientValue_one)
    from h' have 1: "h' = h @ ?fw #
        EBackward combined (fst answer)
          [(lossVar, Some (rootGradientValue t lossValue computeDevice))] ?pg0 # us"
      by simp
    have ex: "\<exists>requested updates.
            EBackward combined (fst answer)
              [(lossVar, Some (rootGradientValue t lossValue computeDevice))] ?pg0 # us =
            EBackward combined (fst answer)
              [(lossVar, Some (rootGradientValue t lossValue computeDevice))]
              requested # updates \<and>
            distinct (map fst requested) \<and>
            set requested = (\<lambda>p. (p, None)) ` set (fn_Parameters combined) \<and>
            (\<forall>e \<in> set updates. is_update e)"
      using requested_gradients [of "fn_Parameters combined"] us by blast
    from 1 ex show ?thesis
      unfolding v option.case rg [symmetric] by (intro conjI)
  qed
  have "\<exists>rest. ?P rest"
  proof (cases rule: TrainMinibatch_cases [OF run, folded lossVar_def combined_def,
        folded answer_def, case_names null noarg count loop])
    case null
    then have "?P []" by simp
    then show ?thesis by (rule exI)
  next
    case (noarg lossValue)
    from bw [OF noarg(1), of "[]"] noarg(4) show ?thesis by (intro exI) simp
  next
    case (count lossValue firstArgument others e)
    from bw [OF count(1), of "[]"] count(5) show ?thesis by (intro exI) simp
  next
    case (loop lossValue firstArgument others n)
    from update_learners_trace [OF loop(5)] obtain us where
      us: "h' = (h @ [?fw] @
             [EBackward combined (fst answer)
                [(lossVar, Some (rootGradientValue t lossValue computeDevice))] ?pg0]) @ us"
      "\<forall>e \<in> set us. \<exists>l g u. e = EUpdate l g n u"
      by auto
    from us(2) have "\<forall>e \<in> set us. is_update e" by (rule updates_are_updates)
    from bw [OF loop(1) _ this] us(1) show ?thesis by (intro exI) simp
  qed
  with requested_outputs_keys [of t] requested_outputs_null [of t]
  show ?thesis unfolding lossVar_def by (intro conjI)
qed


lemma smallTrainer_trained:
  "TrainMinibatch smallWorld smallTrainer minibatch CPUDevice [] =
     (Inr True, trainedTrainer, trainedTrace)"
  by (simp add: TrainMinibatch_def requested_outputs_def umap_insert_def umap_index_def
      rootGradientValue_def GetSampleCountFromArguments_def Rank_def Let_def
      NDArrayView_new_def SetValue_def trainedTrainer_def trainedTrace_def small_defs)

theorem TrainMinibatch_forward_backward_before_updates_witness:
  "TrainMinibatch smallWorld smallTrainer minibatch CPUDevice [] =
     (Inr True, trainedTrainer, trainedTrace) \<and>
   map fst (requested_outputs smallTrainer) = [lossOutput, errorOutput]"
proof -
  note a = smallTrainer_trained
  from TrainMinibatch_forward_backward_before_updates [OF a, THEN conjunct1]
  have "map fst (requested_outputs smallTrainer) = [lossOutput, errorOutput]"
    by (simp add: small_defs)
  with a show ?thesis by (intro conjI)
qed

subsection \<open>The sample count\<close>

lemma GetSampleCountFromArguments_found:
  assumes "find (\<lambda>currentPair. DynamicAxes (fst currentPair) = DynamicAxes lossArgument)
             arguments = Some (argumentVar, Some argumentValue)"
    and "SubShape env (view_Shape (Data argumentValue)) (Rank (Shape argumentVar)) =
           Inr samplesShape"
  shows "GetSampleCountFromArguments env lossArgument arguments =
     (if TotalSize env samplesShape <
           (case Mask argumentValue of None \<Rightarrow> 0 | Some m \<Rightarrow> MaskedCount m)
      then Inl LogicError
      else Inr (TotalSize env samplesShape -
                  (case Mask argumentValue of None \<Rightarrow> 0 | Some m \<Rightarrow> MaskedCount m)))"
  unfolding GetSampleCountFromArguments_def assms option.case prod.case Let_def sum.case
  by (simp split: option.splits)


lemma find_Some_holds: "find P xs = Some x \<Longrightarrow> P x \<and> x \<in> set xs"
  by (induction xs) (auto split: if_splits)

lemma only_updates_with:
  assumes "\<forall>e \<in> set us. \<exists>l g u. e = EUpdate l g n u"
  shows "\<forall>l g k u. EUpdate l g k u \<in> set us \<longrightarrow> k = n"
  using assms by auto

text \<open>
  Claim C5. Let Forward have produced the loss value, and let the first argument, in the
  iteration order of the minibatch, whose dynamic axes are those of the loss function's
  first argument have a value, whose data shape has a sub-shape from the rank of the
  argument's own shape on. The number of samples is the total size of that sub-shape and
  the number of masked samples is the masked count of the value's mask (zero without a
  mask). When the masked count exceeds the number of samples, TrainMinibatch raises
  \<open>LogicError\<close> and updates no learner. Otherwise the count it stores in
  \<^verbatim>\<open>m_prevMinibatchNumSamples\<close>, which is also the count of every learner update it makes,
  is the number of samples minus the masked count, and this subtraction of \<^verbatim>\<open>size_t\<close>
  values does not wrap around: it is the subtraction of the two natural numbers.
\<close>

theorem TrainMinibatch_sample_count:
  fixes env t arguments computeDevice h samplesShape argumentValue
  defines "lossVar \<equiv> fn_Output (m_lossFunction t)"
    and "numSamples \<equiv> TotalSize env samplesShape"
    and "numMasked \<equiv> (case Mask argumentValue of None \<Rightarrow> 0 | Some m \<Rightarrow> MaskedCount m)"
  assumes fwd: "umap_index
                  (snd (Forward env h (m_combinedTrainingFunction t) arguments
                          (requested_outputs t) computeDevice [lossVar]))
                  lossVar = Some lossValue"
    and arg: "fn_Arguments (m_lossFunction t) = lossArgument # others"
    and match: "find (\<lambda>currentPair. DynamicAxes (fst currentPair) = DynamicAxes lossArgument)
                  arguments = Some (argumentVar, Some argumentValue)"
    and sub: "SubShape env (view_Shape (Data argumentValue)) (Rank (Shape argumentVar)) =
                Inr samplesShape"
    and run: "TrainMinibatch env t arguments computeDevice h = (r, t', h')"
  shows "DynamicAxes argumentVar = DynamicAxes lossArgument \<and>
         (argumentVar, Some argumentValue) \<in> set arguments \<and>
         (numSamples < numMasked \<longrightarrow>
            r = Inl LogicError \<and> (\<forall>e \<in> set (drop (length h) h'). \<not> is_update e)) \<and>
         (numMasked \<le> numSamples \<longrightarrow>
            m_prevMinibatchNumSamples t' = numSamples - numMasked \<and>
            unat (m_prevMinibatchNumSamples t') = unat numSamples - unat numMasked \<and>
            unat numMasked \<le> unat numSamples \<and>
            (\<forall>l g n u. EUpdate l g n u \<in> set (drop (length h) h') \<longrightarrow>
               n = numSamples - numMasked))"
proof -
  note count = GetSampleCountFromArguments_found [OF match sub, folded numSamples_def numMasked_def]
  from find_Some_holds [OF match]
  have m: "DynamicAxes argumentVar = DynamicAxes lossArgument"
    "(argumentVar, Some argumentValue) \<in> set arguments"
    by simp_all
  have "(numSamples < numMasked \<longrightarrow>
            r = Inl LogicError \<and> (\<forall>e \<in> set (drop (length h) h'). \<not> is_update e)) \<and>
         (numMasked \<le> numSamples \<longrightarrow>
            m_prevMinibatchNumSamples t' = numSamples - numMasked \<and>
            unat (m_prevMinibatchNumSamples t') = unat numSamples - unat numMasked \<and>
            unat numMasked \<le> unat numSamples \<and>
            (\<forall>l g n u. EUpdate l g n u \<in> set (drop (length h) h') \<longrightarrow>
               n = numSamples - numMasked))"
  proof (cases rule: TrainMinibatch_cases [OF run, folded lossVar_def,
        case_names null noarg count loop])
    case null
    with fwd show ?thesis by simp
  next
    case (noarg lossValue)
    with arg show ?thesis by simp
  next
    case (count lossValue' firstArgument others' e)
    from count(2) arg have "firstArgument = lossArgument" by simp
    with count(3) \<open>GetSampleCountFromArguments env lossArgument arguments = _\<close>
    have lt: "numSamples < numMasked" and "e = LogicError"
      by (simp_all split: if_splits)
    moreover from lt have "\<not> numMasked \<le> numSamples" by (simp add: not_le)
    ultimately show ?thesis using count(4,5) by simp
  next
    case (loop lossValue' firstArgument others' n)
    from loop(2) arg have "firstArgument = lossArgument" by simp
    with loop(3) \<open>GetSampleCountFromArguments env lossArgument arguments = _\<close>
    have le: "numMasked \<le> numSamples" and n: "n = numSamples - numMasked"
      by (simp_all split: if_splits)
    from update_learners_trace [OF loop(5)] obtain us where
      us: "drop (length h) h' =
             EForward (m_combinedTrainingFunction t) arguments (requested_outputs t)
               computeDevice [lossVar] #
             EBackward (m_combinedTrainingFunction t)
               (fst (Forward env h (m_combinedTrainingFunction t) arguments
                       (requested_outputs t) computeDevice [lossVar]))
               [(lossVar, Some (rootGradientValue t lossValue' computeDevice))]
               (fold (\<lambda>parameter. umap_assign parameter None)
                  (fn_Parameters (m_combinedTrainingFunction t)) []) # us"
      "\<forall>e \<in> set us. \<exists>l g u. e = EUpdate l g n u"
      by auto
    from only_updates_with [OF us(2)] us(1)
    have "\<forall>l g k u. EUpdate l g k u \<in> set (drop (length h) h') \<longrightarrow> k = n"
      by simp
    moreover from le have "unat numMasked \<le> unat numSamples"
      by (simp add: word_le_nat_alt)
    moreover from le have "unat (numSamples - numMasked) = unat numSamples - unat numMasked"
      by (rule unat_sub)
    moreover from le have "\<not> numSamples < numMasked" by (simp add: not_less)
    ultimately show ?thesis using le n loop(4) by simp
  qed
  with m show ?thesis by (intro conjI) (elim conjE, assumption)+
qed


theorem TrainMinibatch_sample_count_witness:
  "TrainMinibatch smallWorld smallTrainer minibatch CPUDevice [] =
     (Inr True, trainedTrainer, trainedTrace) \<and>
   m_prevMinibatchNumSamples trainedTrainer = 4 - 1 \<and>
   unat (m_prevMinibatchNumSamples trainedTrainer) = 3 \<and>
   fst (TrainMinibatch smallWorld smallTrainer overmaskedMinibatch CPUDevice []) =
     Inl LogicError"
proof -
  let ?masked = "\<lambda>n. \<lparr>Data = floatView [2, 4] 0, Mask = Some \<lparr>MaskedCount = n\<rparr>\<rparr>"
  have fwd: "umap_index
       (snd (Forward smallWorld [] (m_combinedTrainingFunction smallTrainer) arguments
               (requested_outputs smallTrainer) CPUDevice [fn_Output (m_lossFunction smallTrainer)]))
       (fn_Output (m_lossFunction smallTrainer)) = Some \<lparr>Data = floatView [1] 6, Mask = None\<rparr>"
    for arguments
    by (simp add: requested_outputs_def umap_insert_def umap_index_def Let_def small_defs)
  have arg: "fn_Arguments (m_lossFunction smallTrainer) = labels # [features]"
    by (simp add: smallTrainer_def smallLoss_def networkFunction_def)
  have match: "find (\<lambda>currentPair. DynamicAxes (fst currentPair) = DynamicAxes labels)
      minibatch = Some (features, Some (?masked 1))"
    by (simp add: minibatch_def features_def labels_def)
  have match': "find (\<lambda>currentPair. DynamicAxes (fst currentPair) = DynamicAxes labels)
      overmaskedMinibatch = Some (features, Some (?masked 5))"
    by (simp add: overmaskedMinibatch_def features_def labels_def)
  have sub: "SubShape smallWorld (view_Shape (Data (?masked n))) (Rank (Shape features)) = Inr [4]"
    for n
    by (simp add: smallWorld_def floatView_def features_def Rank_def)
  note run = smallTrainer_trained
  obtain r t' h' where run':
    "TrainMinibatch smallWorld smallTrainer overmaskedMinibatch CPUDevice [] = (r, t', h')"
    by (cases "TrainMinibatch smallWorld smallTrainer overmaskedMinibatch CPUDevice []")
  have size: "TotalSize smallWorld [4] = 4" by (simp add: smallWorld_def)
  have "(1 :: size_t) \<le> 4" by simp
  with TrainMinibatch_sample_count [OF fwd arg match sub run]
  have a: "m_prevMinibatchNumSamples trainedTrainer = 4 - 1 \<and>
           unat (m_prevMinibatchNumSamples trainedTrainer) = unat (4 :: size_t) - unat (1 :: size_t)"
    by (simp add: size)
  have "(4 :: size_t) < 5" by simp
  with TrainMinibatch_sample_count [OF fwd arg match' sub run']
  have "r = Inl LogicError"
    by (simp add: size)
  with run' have b: "fst (TrainMinibatch smallWorld smallTrainer overmaskedMinibatch CPUDevice []) =
     Inl LogicError"
    by simp
  from a have c: "unat (m_prevMinibatchNumSamples trainedTrainer) = 3" by simp
  from run a b c show ?thesis by (intro conjI) (elim conjE, assumption)+
qed

subsection \<open>The learner updates\<close>

text \<open>
  Claim C2. When TrainMinibatch returns, the calls it has made after Forward and Backward
  are calls of Update, one for each learner of \<^verbatim>\<open>m_parameterLearners\<close> and in their
  order. The gradients passed to a learner are keyed by that learner's own parameters, each
  once, and hold for each the data of the gradient value that Backward produced for it;
  the sample count passed is the one stored in \<^verbatim>\<open>m_prevMinibatchNumSamples\<close>. What is
  recorded of each call is what the learner's Update answered to exactly these arguments,
  after the calls made before it. The value returned is true exactly when one of these
  calls of Update answered true.
\<close>

theorem TrainMinibatch_updates_every_learner_once:
  fixes env t arguments computeDevice h
  defines "forward \<equiv>
      EForward (m_combinedTrainingFunction t) arguments (requested_outputs t) computeDevice
        [fn_Output (m_lossFunction t)]"
    and "backPropState \<equiv>
      fst (Forward env h (m_combinedTrainingFunction t) arguments (requested_outputs t)
             computeDevice [fn_Output (m_lossFunction t)])"
  assumes run: "TrainMinibatch env t arguments computeDevice h =
                  (Inr anyUpdatesPerformed, t', h')"
  shows "\<exists>rootGradients requested calls.
           h' = h @ [forward,
                     EBackward (m_combinedTrainingFunction t) backPropState rootGradients
                       requested]
                  @ map (update_event (m_prevMinibatchNumSamples t')) calls \<and>
           map fst calls = m_parameterLearners t \<and>
           (\<forall>c \<in> set calls.
              gradient_data_of
                (Backward env (h @ [forward]) (m_combinedTrainingFunction t) backPropState
                   rootGradients requested)
                (fst c) (fst (snd c))) \<and>
           (\<forall>i < length calls.
              snd (snd (calls ! i)) =
                Update env
                  (h @ [forward,
                        EBackward (m_combinedTrainingFunction t) backPropState rootGradients
                          requested]
                     @ map (update_event (m_prevMinibatchNumSamples t')) (take i calls))
                  (fst (calls ! i)) (fst (snd (calls ! i))) (m_prevMinibatchNumSamples t')) \<and>
           (anyUpdatesPerformed \<longleftrightarrow> (\<exists>c \<in> set calls. snd (snd c)))"
proof (cases rule: TrainMinibatch_cases [OF run, folded forward_def backPropState_def,
      case_names null noarg count loop])
  case null
  then show ?thesis by simp
next
  case (noarg lossValue)
  then show ?thesis by simp
next
  case (count lossValue firstArgument others e)
  then show ?thesis by simp
next
  case (loop lossValue firstArgument others n)
  let ?rg = "[(fn_Output (m_lossFunction t),
               Some (rootGradientValue t lossValue computeDevice))]"
  let ?pg0 = "fold (\<lambda>parameter. umap_assign parameter None)
                (fn_Parameters (m_combinedTrainingFunction t)) []"
  let ?bw = "EBackward (m_combinedTrainingFunction t) backPropState ?rg ?pg0"
  let ?pg = "Backward env (h @ [forward]) (m_combinedTrainingFunction t) backPropState ?rg ?pg0"
  let ?n = "m_prevMinibatchNumSamples t'"
  from update_learners_Inr [OF loop(5)] loop(4) obtain calls where c:
    "map fst calls = m_parameterLearners t"
    "h' = (h @ [forward] @ [?bw]) @ map (update_event ?n) calls"
    "\<forall>c \<in> set calls. gradient_data_of ?pg (fst c) (fst (snd c))"
    "\<forall>i < length calls.
       snd (snd (calls ! i)) =
         Update env ((h @ [forward] @ [?bw]) @ map (update_event ?n) (take i calls))
           (fst (calls ! i)) (fst (snd (calls ! i))) ?n"
    "anyUpdatesPerformed \<longleftrightarrow> False \<or> (\<exists>c \<in> set calls. snd (snd c))"
    by auto
  from c(2) have 2: "h' = h @ [forward, ?bw] @ map (update_event ?n) calls" by simp
  from c(4) have 4: "\<forall>i < length calls.
       snd (snd (calls ! i)) =
         Update env (h @ [forward, ?bw] @ map (update_event ?n) (take i calls))
           (fst (calls ! i)) (fst (snd (calls ! i))) ?n"
    by simp
  from c(5) have 5: "anyUpdatesPerformed \<longleftrightarrow> (\<exists>c \<in> set calls. snd (snd c))" by simp
  from 2 c(1) c(3) 4 5 have "h' = h @ [forward, ?bw] @ map (update_event ?n) calls \<and>
           map fst calls = m_parameterLearners t \<and>
           (\<forall>c \<in> set calls. gradient_data_of ?pg (fst c) (fst (snd c))) \<and>
           (\<forall>i < length calls.
              snd (snd (calls ! i)) =
                Update env (h @ [forward, ?bw] @ map (update_event ?n) (take i calls))
                  (fst (calls ! i)) (fst (snd (calls ! i))) ?n) \<and>
           (anyUpdatesPerformed \<longleftrightarrow> (\<exists>c \<in> set calls. snd (snd c)))"
    by (intro conjI)
  then show ?thesis by (intro exI)
qed

lemmas train_defs = TrainMinibatch_def requested_outputs_def umap_insert_def umap_index_def
  rootGradientValue_def GetSampleCountFromArguments_def Rank_def Let_def
  NDArrayView_new_def SetValue_def

theorem TrainMinibatch_updates_every_learner_once_witness:
  "fst (TrainMinibatch pickyWorld twoLearnerTrainer minibatch CPUDevice []) = Inr True \<and>
   filter is_update (snd (snd (TrainMinibatch pickyWorld twoLearnerTrainer minibatch
                                 CPUDevice []))) =
     [EUpdate sgd [(weights, floatView [2] (1/2))] 3 False, EUpdate momentum [] 3 True] \<and>
   fst (TrainMinibatch idleWorld twoLearnerTrainer minibatch CPUDevice []) = Inr False \<and>
   length (snd (snd (TrainMinibatch idleWorld twoLearnerTrainer minibatch CPUDevice []))) =
     2 + length (m_parameterLearners twoLearnerTrainer)"
proof -
  have a: "fst (TrainMinibatch pickyWorld twoLearnerTrainer minibatch CPUDevice []) = Inr True"
    by (simp add: train_defs pickyWorld_def twoLearnerTrainer_def momentum_def small_defs)
  have b: "filter is_update (snd (snd (TrainMinibatch pickyWorld twoLearnerTrainer minibatch
                                 CPUDevice []))) =
     [EUpdate sgd [(weights, floatView [2] (1/2))] 3 False, EUpdate momentum [] 3 True]"
    by (simp add: train_defs pickyWorld_def twoLearnerTrainer_def momentum_def small_defs)
  obtain r t' h' where
    run0: "TrainMinibatch idleWorld twoLearnerTrainer minibatch CPUDevice [] = (r, t', h')"
    by (cases "TrainMinibatch idleWorld twoLearnerTrainer minibatch CPUDevice []")
  have c: "fst (TrainMinibatch idleWorld twoLearnerTrainer minibatch CPUDevice []) = Inr False"
    by (simp add: train_defs idleWorld_def twoLearnerTrainer_def momentum_def small_defs)
  with run0 have run: "TrainMinibatch idleWorld twoLearnerTrainer minibatch CPUDevice [] =
      (Inr False, t', h')"
    by simp
  from TrainMinibatch_updates_every_learner_once [OF run]
  obtain forward backward and calls :: "(Learner \<times> (Variable, NDArrayView) umap \<times> bool) list"
    where tr: "h' = [] @ [forward, backward] @
                 map (update_event (m_prevMinibatchNumSamples t')) calls"
      and ls: "map fst calls = m_parameterLearners twoLearnerTrainer"
    by blast
  from arg_cong [OF tr, of length] have "length h' = 2 + length calls"
    by simp
  moreover from arg_cong [OF ls, of length]
  have "length calls = length (m_parameterLearners twoLearnerTrainer)"
    by simp
  ultimately have "length h' = 2 + length (m_parameterLearners twoLearnerTrainer)"
    by simp
  with run have d: "length (snd (snd (TrainMinibatch idleWorld twoLearnerTrainer minibatch
      CPUDevice []))) = 2 + length (m_parameterLearners twoLearnerTrainer)"
    by simp
  from a b c d show ?thesis by (intro conjI)
qed

subsection \<open>What the member functions leave unchanged\<close>

lemma TestMinbatch_trainer:
  "TestMinbatch env t arguments computeDevice h = (r, t', h') \<Longrightarrow> t' = t"
  unfolding TestMinbatch_def Let_def
  by (auto split: option.splits list.splits sum.splits)

lemma SaveCheckpoint_trainer:
  "SaveCheckpoint env t p h = (r, t', h') \<Longrightarrow> t' = t"
  unfolding SaveCheckpoint_def Let_def
  by (auto split: if_splits list.splits prod.splits)

lemma RestoreFromCheckpoint_trainer:
  "RestoreFromCheckpoint env t p h = (r, t', h') \<Longrightarrow> t' = t"
  unfolding RestoreFromCheckpoint_def Let_def
  by (auto split: if_splits list.splits prod.splits sum.splits)

lemma TrainMinibatch_evaluationFunction:
  "TrainMinibatch env t arguments computeDevice h = (r, t', h') \<Longrightarrow>
     m_evaluationFunction t' = m_evaluationFunction t"
  unfolding TrainMinibatch_def Let_def
  by (auto split: option.splits list.splits sum.splits prod.splits)

lemma reachable_evaluationFunction:
  "reachable env t0 t \<Longrightarrow> m_evaluationFunction t = m_evaluationFunction t0"
proof (induction rule: reachable.induct)
  case constructed
  show ?case by simp
next
  case (trained t arguments computeDevice h r t' h')
  from TrainMinibatch_evaluationFunction [OF trained.hyps(2)] trained.IH show ?case by simp
next
  case (tested t arguments computeDevice h q t' h')
  from TestMinbatch_trainer [OF tested.hyps(2)] tested.IH show ?case by simp
next
  case (saved t modelFilePath h u t' h')
  from SaveCheckpoint_trainer [OF saved.hyps(2)] saved.IH show ?case by simp
next
  case (restored t modelFilePath h u t' h')
  from RestoreFromCheckpoint_trainer [OF restored.hyps(2)] restored.IH show ?case by simp
qed

lemma Trainer_ctor_evaluationFunction:
  "Trainer_ctor env model lossFunction evaluationFunction parameterLearners = Inr t \<Longrightarrow>
     m_evaluationFunction t = evaluationFunction"
  unfolding Trainer_ctor_def Let_def
  by (auto split: sum.splits if_splits)

subsection \<open>The learners cover the parameters, for good\<close>

lemma TrainMinibatch_learners_and_function:
  "TrainMinibatch env t arguments computeDevice h = (r, t', h') \<Longrightarrow>
     m_parameterLearners t' = m_parameterLearners t \<and>
     m_combinedTrainingFunction t' = m_combinedTrainingFunction t"
  unfolding TrainMinibatch_def Let_def
  by (auto split: option.splits list.splits sum.splits prod.splits)

lemma reachable_learners_and_function:
  "reachable env t0 t \<Longrightarrow>
     m_parameterLearners t = m_parameterLearners t0 \<and>
     m_combinedTrainingFunction t = m_combinedTrainingFunction t0"
proof (induction rule: reachable.induct)
  case constructed
  show ?case by simp
next
  case (trained t arguments computeDevice h r t' h')
  from TrainMinibatch_learners_and_function [OF trained.hyps(2)] trained.IH show ?case by simp
next
  case (tested t arguments computeDevice h q t' h')
  from TestMinbatch_trainer [OF tested.hyps(2)] tested.IH show ?case by simp
next
  case (saved t modelFilePath h u t' h')
  from SaveCheckpoint_trainer [OF saved.hyps(2)] saved.IH show ?case by simp
next
  case (restored t modelFilePath h u t' h')
  from RestoreFromCheckpoint_trainer [OF restored.hyps(2)] restored.IH show ?case by simp
qed

text \<open>
  Claim C7. The learners of an unordered set are pairwise different objects, and the
  parameters of one learner form an unordered set. On such input the constructor raises
  \<open>InvalidArgument\<close> exactly when some parameter is covered by two different learners or
  the union of the learners' parameters differs from the parameters of the combined
  training function. No member function changes the learners or the combined training
  function. Hence in every trainer that the constructor returns, and in every trainer that
  it becomes by calls of its member functions, the learners are those given, their
  parameter sets are pairwise disjoint and their union is the parameter set of the combined
  training function.
\<close>

theorem Trainer_ctor_learner_coverage:
  assumes "distinct parameterLearners"
    and "\<forall>l \<in> set parameterLearners. distinct (learner_Parameters l)"
  shows
    "(Trainer_ctor env model lossFunction evaluationFunction parameterLearners = Inl InvalidArgument
        \<longleftrightarrow>
      (\<exists>l1 \<in> set parameterLearners. \<exists>l2 \<in> set parameterLearners.
          l1 \<noteq> l2 \<and> set (learner_Parameters l1) \<inter> set (learner_Parameters l2) \<noteq> {}) \<or>
      (\<Union>l \<in> set parameterLearners. set (learner_Parameters l)) \<noteq>
        set (fn_Parameters (Combine env [Some model, Some lossFunction, evaluationFunction]))) \<and>
     (\<forall>t0 t. Trainer_ctor env model lossFunction evaluationFunction parameterLearners = Inr t0 \<and>
             reachable env t0 t \<longrightarrow>
        m_parameterLearners t = parameterLearners \<and>
        m_combinedTrainingFunction t =
          Combine env [Some model, Some lossFunction, evaluationFunction] \<and>
        (\<forall>l1 \<in> set (m_parameterLearners t). \<forall>l2 \<in> set (m_parameterLearners t).
           l1 \<noteq> l2 \<longrightarrow> set (learner_Parameters l1) \<inter> set (learner_Parameters l2) = {}) \<and>
        (\<Union>l \<in> set (m_parameterLearners t). set (learner_Parameters l)) =
          set (fn_Parameters (m_combinedTrainingFunction t)))"
proof (intro conjI allI impI)
  note c = Trainer_ctor_cases [OF assms, of env model lossFunction evaluationFunction]
  from c show "Trainer_ctor env model lossFunction evaluationFunction parameterLearners =
      Inl InvalidArgument \<longleftrightarrow>
      (\<exists>l1 \<in> set parameterLearners. \<exists>l2 \<in> set parameterLearners.
          l1 \<noteq> l2 \<and> set (learner_Parameters l1) \<inter> set (learner_Parameters l2) \<noteq> {}) \<or>
      (\<Union>l \<in> set parameterLearners. set (learner_Parameters l)) \<noteq>
        set (fn_Parameters (Combine env [Some model, Some lossFunction, evaluationFunction]))"
    by (rule conjunct1)
  fix t0 t
  assume a: "Trainer_ctor env model lossFunction evaluationFunction parameterLearners = Inr t0 \<and>
             reachable env t0 t"
  then have r: "reachable env t0 t" by (rule conjunct2)
  from a have "Trainer_ctor env model lossFunction evaluationFunction parameterLearners = Inr t0"
    by (rule conjunct1)
  from c [THEN conjunct2, rule_format, OF this]
  have 0: "m_parameterLearners t0 = parameterLearners"
    "m_combinedTrainingFunction t0 =
       Combine env [Some model, Some lossFunction, evaluationFunction]"
    "\<forall>l1 \<in> set (m_parameterLearners t0). \<forall>l2 \<in> set (m_parameterLearners t0).
       l1 \<noteq> l2 \<longrightarrow> set (learner_Parameters l1) \<inter> set (learner_Parameters l2) = {}"
    "(\<Union>l \<in> set (m_parameterLearners t0). set (learner_Parameters l)) =
       set (fn_Parameters (m_combinedTrainingFunction t0))"
    by blast+
  from reachable_learners_and_function [OF r]
  have same: "m_parameterLearners t = m_parameterLearners t0"
    "m_combinedTrainingFunction t = m_combinedTrainingFunction t0"
    by blast+
  from 0 show "m_parameterLearners t = parameterLearners" unfolding same by simp
  from 0 show "m_combinedTrainingFunction t =
       Combine env [Some model, Some lossFunction, evaluationFunction]" unfolding same by simp
  from 0(3) show "\<forall>l1 \<in> set (m_parameterLearners t). \<forall>l2 \<in> set (m_parameterLearners t).
       l1 \<noteq> l2 \<longrightarrow> set (learner_Parameters l1) \<inter> set (learner_Parameters l2) = {}"
    unfolding same .
  from 0(4) show "(\<Union>l \<in> set (m_parameterLearners t). set (learner_Parameters l)) =
       set (fn_Parameters (m_combinedTrainingFunction t))"
    unfolding same .
qed

theorem Trainer_ctor_learner_coverage_witness:
  "distinct [sgd, biasLearner] \<and> distinct (learner_Parameters sgd) \<and>
   distinct (learner_Parameters biasLearner) \<and>
   Trainer_ctor biasedWorld smallModel smallLoss (Some smallEvaluation) [sgd, biasLearner] =
     Inr biasedTrainer \<and>
   m_parameterLearners
     (fst (snd (TrainMinibatch biasedWorld biasedTrainer minibatch CPUDevice []))) =
     [sgd, biasLearner] \<and>
   set (learner_Parameters sgd) \<union> set (learner_Parameters biasLearner) =
     set (fn_Parameters (m_combinedTrainingFunction
       (fst (snd (TrainMinibatch biasedWorld biasedTrainer minibatch CPUDevice []))))) \<and>
   distinct [sgd, rivalLearner] \<and> distinct (learner_Parameters rivalLearner) \<and>
   Trainer_ctor biasedWorld smallModel smallLoss (Some smallEvaluation) [sgd, rivalLearner] =
     Inl InvalidArgument"
proof -
  have a: "distinct [sgd, biasLearner]" by (simp add: sgd_def biasLearner_def)
  have b1: "distinct (learner_Parameters sgd)" by (simp add: sgd_def)
  have b2: "distinct (learner_Parameters biasLearner)" by (simp add: biasLearner_def)
  from b1 b2 have b: "\<forall>l \<in> set [sgd, biasLearner]. distinct (learner_Parameters l)" by simp
  have c: "Trainer_ctor biasedWorld smallModel smallLoss (Some smallEvaluation)
             [sgd, biasLearner] = Inr biasedTrainer"
    by (simp add: Trainer_ctor_def biasedWorld_def biasedTrainer_def biasedCombined_def
        biasLearner_def bias_def small_defs)
  obtain r t' h' where
    run: "TrainMinibatch biasedWorld biasedTrainer minibatch CPUDevice [] = (r, t', h')"
    by (cases "TrainMinibatch biasedWorld biasedTrainer minibatch CPUDevice []")
  have "reachable biasedWorld biasedTrainer biasedTrainer" by (rule reachable.constructed)
  from this run have reach: "reachable biasedWorld biasedTrainer t'" by (rule reachable.trained)
  note th = Trainer_ctor_learner_coverage
    [OF a b, of biasedWorld smallModel smallLoss "Some smallEvaluation"]
  from c reach have "Trainer_ctor biasedWorld smallModel smallLoss (Some smallEvaluation)
             [sgd, biasLearner] = Inr biasedTrainer \<and> reachable biasedWorld biasedTrainer t'"
    by (rule conjI)
  from th [THEN conjunct2, rule_format, OF this]
  have d: "m_parameterLearners t' = [sgd, biasLearner]"
    and e0: "(\<Union>l \<in> set (m_parameterLearners t'). set (learner_Parameters l)) =
          set (fn_Parameters (m_combinedTrainingFunction t'))"
    by blast+
  from e0 have e: "set (learner_Parameters sgd) \<union> set (learner_Parameters biasLearner) =
          set (fn_Parameters (m_combinedTrainingFunction t'))"
    unfolding d by simp
  have f: "distinct [sgd, rivalLearner]" by (simp add: sgd_def rivalLearner_def)
  have g0: "distinct (learner_Parameters rivalLearner)"
    by (simp add: rivalLearner_def weights_def bias_def L_def)
  with b1 have g: "\<forall>l \<in> set [sgd, rivalLearner]. distinct (learner_Parameters l)" by simp
  have overlap: "\<exists>l1 \<in> set [sgd, rivalLearner]. \<exists>l2 \<in> set [sgd, rivalLearner].
      l1 \<noteq> l2 \<and> set (learner_Parameters l1) \<inter> set (learner_Parameters l2) \<noteq> {}"
    by (simp add: sgd_def rivalLearner_def)
  note th2 = Trainer_ctor_learner_coverage
    [OF f g, of biasedWorld smallModel smallLoss "Some smallEvaluation", THEN conjunct1]
  from overlap have i: "Trainer_ctor biasedWorld smallModel smallLoss (Some smallEvaluation)
      [sgd, rivalLearner] = Inl InvalidArgument"
    unfolding th2 by (rule disjI1)
  from run d e have d': "m_parameterLearners
     (fst (snd (TrainMinibatch biasedWorld biasedTrainer minibatch CPUDevice []))) =
     [sgd, biasLearner]"
    and e': "set (learner_Parameters sgd) \<union> set (learner_Parameters biasLearner) =
     set (fn_Parameters (m_combinedTrainingFunction
       (fst (snd (TrainMinibatch biasedWorld biasedTrainer minibatch CPUDevice [])))))"
    by simp_all
  from a b1 b2 c d' e' f g0 i show ?thesis by (intro conjI)
qed

subsection \<open>Testing leaves the previous minibatch as it is\<close>

text \<open>
  Claim C9. TestMinbatch returns the trainer as it received it, whether it returns a value
  or raises: the sample count and the two aggregate values of the previous minibatch are
  those of before, and so are the two averages computed from them.
\<close>

theorem TestMinbatch_keeps_previous_minibatch:
  assumes "TestMinbatch env t arguments computeDevice h = (r, t', h')"
  shows "m_prevMinibatchNumSamples t' = m_prevMinibatchNumSamples t \<and>
         m_prevMinibatchAggregateTrainingLossValue t' =
           m_prevMinibatchAggregateTrainingLossValue t \<and>
         m_prevMinibatchAggregateEvalCriterionValue t' =
           m_prevMinibatchAggregateEvalCriterionValue t \<and>
         PreviousMinibatchLossAverage env t' = PreviousMinibatchLossAverage env t \<and>
         PreviousMinibatchEvaluationAverage env t' = PreviousMinibatchEvaluationAverage env t"
proof -
  from assms have "t' = t" by (rule TestMinbatch_trainer)
  then show ?thesis by simp
qed


theorem TestMinbatch_keeps_previous_minibatch_witness:
  "TrainMinibatch smallWorld smallTrainer minibatch CPUDevice [] =
     (Inr True, trainedTrainer, trainedTrace) \<and>
   fst (TestMinbatch smallWorld trainedTrainer minibatch CPUDevice trainedTrace) =
     Inr (Div 6 3) \<and>
   PreviousMinibatchLossAverage smallWorld
     (fst (snd (TestMinbatch smallWorld trainedTrainer minibatch CPUDevice trainedTrace))) =
     Inr (Div 6 3)"
proof -
  note a = smallTrainer_trained
  have c: "PreviousMinibatchLossAverage smallWorld trainedTrainer = Inr (Div 6 3)"
    by (simp add: PreviousMinibatchLossAverage_def GetScalarValue_def DataBuffer_first_def
        trainedTrainer_def Let_def small_defs)
  obtain r t' h' where
    d: "TestMinbatch smallWorld trainedTrainer minibatch CPUDevice trainedTrace = (r, t', h')"
    by (cases "TestMinbatch smallWorld trainedTrainer minibatch CPUDevice trainedTrace")
  have e: "fst (TestMinbatch smallWorld trainedTrainer minibatch CPUDevice trainedTrace) =
             Inr (Div 6 3)"
    by (simp add: TestMinbatch_def GetSampleCountFromArguments_def GetScalarValue_def
        DataBuffer_first_def umap_index_def Rank_def trainedTrainer_def Let_def small_defs)
  from TestMinbatch_keeps_previous_minibatch [OF d]
  have "PreviousMinibatchLossAverage smallWorld t' =
          PreviousMinibatchLossAverage smallWorld trainedTrainer"
    by (elim conjE)
  with c d have f: "PreviousMinibatchLossAverage smallWorld
     (fst (snd (TestMinbatch smallWorld trainedTrainer minibatch CPUDevice trainedTrace))) =
     Inr (Div 6 3)"
    by simp
  from a e f show ?thesis by (intro conjI)
qed

subsection \<open>Testing with and without an evaluation function\<close>

lemma TestMinbatch_no_evaluation:
  "m_evaluationFunction t = None \<Longrightarrow>
     TestMinbatch env t arguments computeDevice h = (Inl InvalidArgument, t, h)"
  by (simp add: TestMinbatch_def)

lemma PreviousMinibatchEvaluationAverage_no_evaluation:
  "m_evaluationFunction t = None \<Longrightarrow>
     PreviousMinibatchEvaluationAverage env t = Inl InvalidArgument"
  by (simp add: PreviousMinibatchEvaluationAverage_def)

lemma TestMinbatch_returns_iff:
  assumes "m_evaluationFunction t = Some evaluationFunction"
  shows "TestMinbatch env t arguments computeDevice h = (Inr q, t', h') \<longleftrightarrow>
    (\<exists>firstArgument others scalar sampleCount.
       fn_Arguments evaluationFunction = firstArgument # others \<and>
       GetSampleCountFromArguments env firstArgument arguments = Inr sampleCount \<and>
       GetScalarValue env
         (umap_index
            (snd (Forward env h (m_combinedTrainingFunction t) arguments
                    [(fn_Output evaluationFunction, None)] computeDevice []))
            (fn_Output evaluationFunction)) = Inr scalar \<and>
       q = Div scalar sampleCount \<and> t' = t \<and>
       h' = h @ [EForward (m_combinedTrainingFunction t) arguments
                   [(fn_Output evaluationFunction, None)] computeDevice []])"
  unfolding TestMinbatch_def assms option.case Let_def
  by (auto split: list.splits sum.splits)

lemma DataBuffer_first_Inr_iff:
  "DataBuffer_first a = Inr scalar \<longleftrightarrow>
     (\<exists>v. (view_Storage a = Filled v \<or> (\<exists>vs. view_Storage a = Elements (v # vs))) \<and>
          (v = FloatVal scalar \<or> v = DoubleVal scalar))"
proof (cases "view_Storage a")
  case Uninitialized
  then show ?thesis by (simp add: DataBuffer_first_def)
next
  case (Filled v)
  then show ?thesis by (cases v) (auto simp: DataBuffer_first_def)
next
  case (Elements vs)
  show ?thesis
  proof (cases vs)
    case Nil
    with Elements show ?thesis by (simp add: DataBuffer_first_def)
  next
    case (Cons v vs')
    with Elements show ?thesis by (cases v) (auto simp: DataBuffer_first_def)
  qed
qed

lemma GetScalarValue_Inr_iff:
  "GetScalarValue env valuePtr = Inr scalar \<longleftrightarrow>
     (\<exists>scalarValue v.
        valuePtr = Some scalarValue \<and> Mask scalarValue = None \<and>
        TotalSize env (view_Shape (Data scalarValue)) = 1 \<and>
        (view_DataType (Data scalarValue) = Float \<or> view_DataType (Data scalarValue) = Double) \<and>
        (view_Storage (Data scalarValue) = Filled v \<or>
         (\<exists>vs. view_Storage (Data scalarValue) = Elements (v # vs))) \<and>
        (v = FloatVal scalar \<or> v = DoubleVal scalar))"
proof (cases valuePtr)
  case None
  then show ?thesis by (simp add: GetScalarValue_def)
next
  case (Some scalarValue)
  let ?d = "Data scalarValue"
  let ?cpu = "if view_Device ?d = CPUDevice then ?d
              else CopyFrom ?d (NDArrayView_new (view_DataType ?d) (view_Shape ?d) CPUDevice)"
  have st: "view_Storage ?cpu = view_Storage ?d"
    by (simp add: CopyFrom_def NDArrayView_new_def)
  have "GetScalarValue env valuePtr =
      (if Mask scalarValue \<noteq> None then Inl LogicError
       else if TotalSize env (view_Shape ?d) \<noteq> 1 then Inl LogicError
       else if view_DataType ?d = Float \<or> view_DataType ?d = Double then DataBuffer_first ?cpu
       else Inl LogicError)"
    unfolding GetScalarValue_def Some option.case Let_def by simp
  also have "\<dots> = Inr scalar \<longleftrightarrow>
      (Mask scalarValue = None \<and> TotalSize env (view_Shape ?d) = 1 \<and>
       (view_DataType ?d = Float \<or> view_DataType ?d = Double) \<and>
       DataBuffer_first ?cpu = Inr scalar)"
    by simp
  finally show ?thesis
    unfolding DataBuffer_first_Inr_iff st Some by auto
qed

lemma GetSampleCountFromArguments_Inr_iff:
  "GetSampleCountFromArguments env evalOrLossArgument arguments = Inr sampleCount \<longleftrightarrow>
     (\<exists>argumentVar argumentValue samplesShape.
        find (\<lambda>currentPair. DynamicAxes (fst currentPair) = DynamicAxes evalOrLossArgument)
          arguments = Some (argumentVar, Some argumentValue) \<and>
        SubShape env (view_Shape (Data argumentValue)) (Rank (Shape argumentVar)) =
          Inr samplesShape \<and>
        (case Mask argumentValue of None \<Rightarrow> 0 | Some m \<Rightarrow> MaskedCount m)
          \<le> TotalSize env samplesShape \<and>
        sampleCount =
          TotalSize env samplesShape -
            (case Mask argumentValue of None \<Rightarrow> 0 | Some m \<Rightarrow> MaskedCount m))"
    (is "?l \<longleftrightarrow> ?r")
proof
  assume l: ?l
  then obtain argumentVar argumentValue where
    f: "find (\<lambda>currentPair. DynamicAxes (fst currentPair) = DynamicAxes evalOrLossArgument)
          arguments = Some (argumentVar, Some argumentValue)"
    unfolding GetSampleCountFromArguments_def
    by (auto split: option.splits prod.splits)
  from l f obtain samplesShape where
    s: "SubShape env (view_Shape (Data argumentValue)) (Rank (Shape argumentVar)) =
          Inr samplesShape"
    unfolding GetSampleCountFromArguments_def f option.case prod.case Let_def
    by (auto split: sum.splits)
  from l GetSampleCountFromArguments_found [OF f s]
  have "(case Mask argumentValue of None \<Rightarrow> 0 | Some m \<Rightarrow> MaskedCount m)
          \<le> TotalSize env samplesShape \<and>
        sampleCount =
          TotalSize env samplesShape -
            (case Mask argumentValue of None \<Rightarrow> 0 | Some m \<Rightarrow> MaskedCount m)"
    by (simp add: not_less split: if_splits)
  with f s show ?r by blast
next
  assume ?r
  then obtain argumentVar argumentValue samplesShape where
    f: "find (\<lambda>currentPair. DynamicAxes (fst currentPair) = DynamicAxes evalOrLossArgument)
          arguments = Some (argumentVar, Some argumentValue)"
    and s: "SubShape env (view_Shape (Data argumentValue)) (Rank (Shape argumentVar)) =
          Inr samplesShape"
    and m: "(case Mask argumentValue of None \<Rightarrow> 0 | Some m \<Rightarrow> MaskedCount m)
          \<le> TotalSize env samplesShape"
    and n: "sampleCount =
          TotalSize env samplesShape -
            (case Mask argumentValue of None \<Rightarrow> 0 | Some m \<Rightarrow> MaskedCount m)"
    by blast
  from m have "\<not> TotalSize env samplesShape <
       (case Mask argumentValue of None \<Rightarrow> 0 | Some m \<Rightarrow> MaskedCount m)"
    by (simp add: not_less)
  with GetSampleCountFromArguments_found [OF f s] n show ?l by simp
qed


lemma TestMinbatch_returns_pinned:
  assumes "m_evaluationFunction t1 = Some evaluationFunction"
  shows "TestMinbatch env t1 arguments computeDevice h = (Inr q, t', h') \<longleftrightarrow>
        (\<exists>firstArgument others argumentVar argumentValue samplesShape evaluationValue v scalar.
           fn_Arguments evaluationFunction = firstArgument # others \<and>
           find (\<lambda>currentPair. DynamicAxes (fst currentPair) = DynamicAxes firstArgument)
             arguments = Some (argumentVar, Some argumentValue) \<and>
           SubShape env (view_Shape (Data argumentValue)) (Rank (Shape argumentVar)) =
             Inr samplesShape \<and>
           (case Mask argumentValue of None \<Rightarrow> 0 | Some m \<Rightarrow> MaskedCount m)
             \<le> TotalSize env samplesShape \<and>
           umap_index
             (snd (Forward env h (m_combinedTrainingFunction t1) arguments
                     [(fn_Output evaluationFunction, None)] computeDevice []))
             (fn_Output evaluationFunction) = Some evaluationValue \<and>
           Mask evaluationValue = None \<and>
           TotalSize env (view_Shape (Data evaluationValue)) = 1 \<and>
           (view_DataType (Data evaluationValue) = Float \<or>
            view_DataType (Data evaluationValue) = Double) \<and>
           (view_Storage (Data evaluationValue) = Filled v \<or>
            (\<exists>vs. view_Storage (Data evaluationValue) = Elements (v # vs))) \<and>
           (v = FloatVal scalar \<or> v = DoubleVal scalar) \<and>
           q = Div scalar
                 (TotalSize env samplesShape -
                    (case Mask argumentValue of None \<Rightarrow> 0 | Some m \<Rightarrow> MaskedCount m)) \<and>
           t' = t1 \<and>
           h' = h @ [EForward (m_combinedTrainingFunction t1) arguments
                       [(fn_Output evaluationFunction, None)] computeDevice []])"
    (is "?l \<longleftrightarrow> ?r")
proof
  assume ?l
  then obtain firstArgument others scalar sampleCount where a:
    "fn_Arguments evaluationFunction = firstArgument # others"
    "GetSampleCountFromArguments env firstArgument arguments = Inr sampleCount"
    "GetScalarValue env
       (umap_index
          (snd (Forward env h (m_combinedTrainingFunction t1) arguments
                  [(fn_Output evaluationFunction, None)] computeDevice []))
          (fn_Output evaluationFunction)) = Inr scalar"
    "q = Div scalar sampleCount" "t' = t1"
    "h' = h @ [EForward (m_combinedTrainingFunction t1) arguments
                 [(fn_Output evaluationFunction, None)] computeDevice []]"
    unfolding TestMinbatch_returns_iff [OF assms] by blast
  from a(2) [unfolded GetSampleCountFromArguments_Inr_iff]
  obtain argumentVar argumentValue samplesShape where b:
    "find (\<lambda>currentPair. DynamicAxes (fst currentPair) = DynamicAxes firstArgument)
       arguments = Some (argumentVar, Some argumentValue)"
    "SubShape env (view_Shape (Data argumentValue)) (Rank (Shape argumentVar)) =
       Inr samplesShape"
    "(case Mask argumentValue of None \<Rightarrow> 0 | Some m \<Rightarrow> MaskedCount m)
       \<le> TotalSize env samplesShape"
    "sampleCount = TotalSize env samplesShape -
       (case Mask argumentValue of None \<Rightarrow> 0 | Some m \<Rightarrow> MaskedCount m)"
    by blast
  from a(3) [unfolded GetScalarValue_Inr_iff]
  obtain evaluationValue v where c:
    "umap_index
       (snd (Forward env h (m_combinedTrainingFunction t1) arguments
               [(fn_Output evaluationFunction, None)] computeDevice []))
       (fn_Output evaluationFunction) = Some evaluationValue"
    "Mask evaluationValue = None"
    "TotalSize env (view_Shape (Data evaluationValue)) = 1"
    "view_DataType (Data evaluationValue) = Float \<or>
     view_DataType (Data evaluationValue) = Double"
    "view_Storage (Data evaluationValue) = Filled v \<or>
     (\<exists>vs. view_Storage (Data evaluationValue) = Elements (v # vs))"
    "v = FloatVal scalar \<or> v = DoubleVal scalar"
    by blast
  from a(4) b(4) have q: "q = Div scalar (TotalSize env samplesShape -
       (case Mask argumentValue of None \<Rightarrow> 0 | Some m \<Rightarrow> MaskedCount m))"
    by simp
  from a(1) b(1,2,3) c q a(5,6) show ?r
    by (intro exI conjI)
next
  assume ?r
  then obtain firstArgument others argumentVar argumentValue samplesShape evaluationValue v
      scalar where a:
    "fn_Arguments evaluationFunction = firstArgument # others"
    "find (\<lambda>currentPair. DynamicAxes (fst currentPair) = DynamicAxes firstArgument)
       arguments = Some (argumentVar, Some argumentValue)"
    "SubShape env (view_Shape (Data argumentValue)) (Rank (Shape argumentVar)) =
       Inr samplesShape"
    "(case Mask argumentValue of None \<Rightarrow> 0 | Some m \<Rightarrow> MaskedCount m)
       \<le> TotalSize env samplesShape"
    "umap_index
       (snd (Forward env h (m_combinedTrainingFunction t1) arguments
               [(fn_Output evaluationFunction, None)] computeDevice []))
       (fn_Output evaluationFunction) = Some evaluationValue"
    "Mask evaluationValue = None"
    "TotalSize env (view_Shape (Data evaluationValue)) = 1"
    "view_DataType (Data evaluationValue) = Float \<or>
     view_DataType (Data evaluationValue) = Double"
    "view_Storage (Data evaluationValue) = Filled v \<or>
     (\<exists>vs. view_Storage (Data evaluationValue) = Elements (v # vs))"
    "v = FloatVal scalar \<or> v = DoubleVal scalar"
    "q = Div scalar (TotalSize env samplesShape -
       (case Mask argumentValue of None \<Rightarrow> 0 | Some m \<Rightarrow> MaskedCount m))"
    "t' = t1"
    "h' = h @ [EForward (m_combinedTrainingFunction t1) arguments
                 [(fn_Output evaluationFunction, None)] computeDevice []]"
    by blast
  from a(2,3,4) have n: "GetSampleCountFromArguments env firstArgument arguments =
      Inr (TotalSize env samplesShape -
       (case Mask argumentValue of None \<Rightarrow> 0 | Some m \<Rightarrow> MaskedCount m))"
    unfolding GetSampleCountFromArguments_Inr_iff by blast
  from a(5-10) have s: "GetScalarValue env
       (umap_index
          (snd (Forward env h (m_combinedTrainingFunction t1) arguments
                  [(fn_Output evaluationFunction, None)] computeDevice []))
          (fn_Output evaluationFunction)) = Inr scalar"
    unfolding GetScalarValue_Inr_iff by blast
  from a(1) n s a(11,12,13) show ?l
    unfolding TestMinbatch_returns_iff [OF assms] by blast
qed

text \<open>
  Claim C8. A trainer built without an evaluation function, by either constructor, has
  none for good: whatever calls were made on it before, TestMinbatch and
  PreviousMinibatchEvaluationAverage raise \<open>InvalidArgument\<close>, and TestMinbatch calls no
  collaborator. With an evaluation function, TestMinbatch calls Forward for the evaluation
  output and returns a value exactly in this case: the first argument of the minibatch
  whose dynamic axes are those of the evaluation function's first argument has a value
  whose masked count does not exceed its number of samples; and the evaluation value that
  Forward produced has no mask, total size one and data type Float or Double. The value
  returned is then the first element of that evaluation value, the scalar, divided by the
  number of samples minus the masked count.
\<close>

theorem TestMinbatch_needs_evaluation_function:
  "((Trainer_ctor env model lossFunction None parameterLearners = Inr t0 \<or>
     Trainer_ctor3 env model lossFunction parameterLearners = Inr t0) \<and>
    reachable env t0 t \<longrightarrow>
      TestMinbatch env t arguments computeDevice h = (Inl InvalidArgument, t, h) \<and>
      PreviousMinibatchEvaluationAverage env t = Inl InvalidArgument) \<and>
   (m_evaluationFunction t1 = Some evaluationFunction \<longrightarrow>
      (TestMinbatch env t1 arguments computeDevice h = (Inr q, t', h') \<longleftrightarrow>
        (\<exists>firstArgument others argumentVar argumentValue samplesShape evaluationValue v scalar.
           fn_Arguments evaluationFunction = firstArgument # others \<and>
           find (\<lambda>currentPair. DynamicAxes (fst currentPair) = DynamicAxes firstArgument)
             arguments = Some (argumentVar, Some argumentValue) \<and>
           SubShape env (view_Shape (Data argumentValue)) (Rank (Shape argumentVar)) =
             Inr samplesShape \<and>
           (case Mask argumentValue of None \<Rightarrow> 0 | Some m \<Rightarrow> MaskedCount m)
             \<le> TotalSize env samplesShape \<and>
           umap_index
             (snd (Forward env h (m_combinedTrainingFunction t1) arguments
                     [(fn_Output evaluationFunction, None)] computeDevice []))
             (fn_Output evaluationFunction) = Some evaluationValue \<and>
           Mask evaluationValue = None \<and>
           TotalSize env (view_Shape (Data evaluationValue)) = 1 \<and>
           (view_DataType (Data evaluationValue) = Float \<or>
            view_DataType (Data evaluationValue) = Double) \<and>
           (view_Storage (Data evaluationValue) = Filled v \<or>
            (\<exists>vs. view_Storage (Data evaluationValue) = Elements (v # vs))) \<and>
           (v = FloatVal scalar \<or> v = DoubleVal scalar) \<and>
           q = Div scalar
                 (TotalSize env samplesShape -
                    (case Mask argumentValue of None \<Rightarrow> 0 | Some m \<Rightarrow> MaskedCount m)) \<and>
           t' = t1 \<and>
           h' = h @ [EForward (m_combinedTrainingFunction t1) arguments
                       [(fn_Output evaluationFunction, None)] computeDevice []])))"
proof (intro conjI impI)
  assume a: "(Trainer_ctor env model lossFunction None parameterLearners = Inr t0 \<or>
              Trainer_ctor3 env model lossFunction parameterLearners = Inr t0) \<and>
             reachable env t0 t"
  then have "Trainer_ctor env model lossFunction None parameterLearners = Inr t0"
    by (auto simp: Trainer_ctor3_def)
  then have "m_evaluationFunction t0 = None"
    by (rule Trainer_ctor_evaluationFunction)
  moreover from a have "reachable env t0 t" by (rule conjunct2)
  then have "m_evaluationFunction t = m_evaluationFunction t0"
    by (rule reachable_evaluationFunction)
  ultimately have n: "m_evaluationFunction t = None" by simp
  from n show "TestMinbatch env t arguments computeDevice h = (Inl InvalidArgument, t, h)"
    by (rule TestMinbatch_no_evaluation)
  from n show "PreviousMinibatchEvaluationAverage env t = Inl InvalidArgument"
    by (rule PreviousMinibatchEvaluationAverage_no_evaluation)
next
  assume "m_evaluationFunction t1 = Some evaluationFunction"
  then show "TestMinbatch env t1 arguments computeDevice h = (Inr q, t', h') \<longleftrightarrow>
        (\<exists>firstArgument others argumentVar argumentValue samplesShape evaluationValue v scalar.
           fn_Arguments evaluationFunction = firstArgument # others \<and>
           find (\<lambda>currentPair. DynamicAxes (fst currentPair) = DynamicAxes firstArgument)
             arguments = Some (argumentVar, Some argumentValue) \<and>
           SubShape env (view_Shape (Data argumentValue)) (Rank (Shape argumentVar)) =
             Inr samplesShape \<and>
           (case Mask argumentValue of None \<Rightarrow> 0 | Some m \<Rightarrow> MaskedCount m)
             \<le> TotalSize env samplesShape \<and>
           umap_index
             (snd (Forward env h (m_combinedTrainingFunction t1) arguments
                     [(fn_Output evaluationFunction, None)] computeDevice []))
             (fn_Output evaluationFunction) = Some evaluationValue \<and>
           Mask evaluationValue = None \<and>
           TotalSize env (view_Shape (Data evaluationValue)) = 1 \<and>
           (view_DataType (Data evaluationValue) = Float \<or>
            view_DataType (Data evaluationValue) = Double) \<and>
           (view_Storage (Data evaluationValue) = Filled v \<or>
            (\<exists>vs. view_Storage (Data evaluationValue) = Elements (v # vs))) \<and>
           (v = FloatVal scalar \<or> v = DoubleVal scalar) \<and>
           q = Div scalar
                 (TotalSize env samplesShape -
                    (case Mask argumentValue of None \<Rightarrow> 0 | Some m \<Rightarrow> MaskedCount m)) \<and>
           t' = t1 \<and>
           h' = h @ [EForward (m_combinedTrainingFunction t1) arguments
                       [(fn_Output evaluationFunction, None)] computeDevice []])"
    by (rule TestMinbatch_returns_pinned)
qed

theorem TestMinbatch_needs_evaluation_function_witness:
  "Trainer_ctor3 smallWorld smallModel smallLoss [sgd] = Inr noEvaluationTrainer \<and>
   reachable smallWorld noEvaluationTrainer noEvaluationTrainer \<and>
   TestMinbatch smallWorld noEvaluationTrainer minibatch CPUDevice [] =
     (Inl InvalidArgument, noEvaluationTrainer, []) \<and>
   PreviousMinibatchEvaluationAverage smallWorld noEvaluationTrainer = Inl InvalidArgument \<and>
   m_evaluationFunction smallTrainer = Some smallEvaluation \<and>
   TestMinbatch smallWorld smallTrainer minibatch CPUDevice [] =
     (Inr (Div 6 3), smallTrainer,
      [EForward smallCombined minibatch [(errorOutput, None)] CPUDevice []]) \<and>
   TestMinbatch doubleWorld smallTrainer minibatch (GPUDevice 0) [] =
     (Inr (Div 9 3), smallTrainer,
      [EForward smallCombined minibatch [(errorOutput, None)] (GPUDevice 0) []])"
proof -
  have a: "Trainer_ctor3 smallWorld smallModel smallLoss [sgd] = Inr noEvaluationTrainer"
    by (simp add: Trainer_ctor3_def Trainer_ctor_def noEvaluationTrainer_def small_defs)
  have b: "reachable smallWorld noEvaluationTrainer noEvaluationTrainer"
    by (rule reachable.constructed)
  have c: "m_evaluationFunction smallTrainer = Some smallEvaluation"
    by (simp add: smallTrainer_def)
  from a b have ab: "(Trainer_ctor smallWorld smallModel smallLoss None [sgd] = Inr noEvaluationTrainer \<or>
      Trainer_ctor3 smallWorld smallModel smallLoss [sgd] = Inr noEvaluationTrainer) \<and>
      reachable smallWorld noEvaluationTrainer noEvaluationTrainer"
    by simp
  from TestMinbatch_needs_evaluation_function
    [where env = smallWorld and model = smallModel and lossFunction = smallLoss
       and parameterLearners = "[sgd]" and ?t0.0 = noEvaluationTrainer
       and t = noEvaluationTrainer and arguments = minibatch and computeDevice = CPUDevice
       and h = "[]", THEN conjunct1, rule_format, OF ab]
  have d: "TestMinbatch smallWorld noEvaluationTrainer minibatch CPUDevice [] =
             (Inl InvalidArgument, noEvaluationTrainer, []) \<and>
           PreviousMinibatchEvaluationAverage smallWorld noEvaluationTrainer = Inl InvalidArgument" .
  have e1: "(\<exists>firstArgument others argumentVar argumentValue samplesShape evaluationValue v scalar.
           fn_Arguments smallEvaluation = firstArgument # others \<and>
           find (\<lambda>currentPair. DynamicAxes (fst currentPair) = DynamicAxes firstArgument)
             minibatch = Some (argumentVar, Some argumentValue) \<and>
           SubShape smallWorld (view_Shape (Data argumentValue)) (Rank (Shape argumentVar)) =
             Inr samplesShape \<and>
           (case Mask argumentValue of None \<Rightarrow> 0 | Some m \<Rightarrow> MaskedCount m)
             \<le> TotalSize smallWorld samplesShape \<and>
           umap_index
             (snd (Forward smallWorld [] (m_combinedTrainingFunction smallTrainer) minibatch
                     [(fn_Output smallEvaluation, None)] CPUDevice []))
             (fn_Output smallEvaluation) = Some evaluationValue \<and>
           Mask evaluationValue = None \<and>
           TotalSize smallWorld (view_Shape (Data evaluationValue)) = 1 \<and>
           (view_DataType (Data evaluationValue) = Float \<or>
            view_DataType (Data evaluationValue) = Double) \<and>
           (view_Storage (Data evaluationValue) = Filled v \<or>
            (\<exists>vs. view_Storage (Data evaluationValue) = Elements (v # vs))) \<and>
           (v = FloatVal scalar \<or> v = DoubleVal scalar) \<and>
           Div 6 3 = Div scalar
                 (TotalSize smallWorld samplesShape -
                    (case Mask argumentValue of None \<Rightarrow> 0 | Some m \<Rightarrow> MaskedCount m)) \<and>
           smallTrainer = smallTrainer \<and>
           [EForward smallCombined minibatch [(errorOutput, None)] CPUDevice []] = [] @ [EForward (m_combinedTrainingFunction smallTrainer) minibatch
                       [(fn_Output smallEvaluation, None)] CPUDevice []])"
    by (rule exI [of _ labels], rule exI [of _ "[features]"], rule exI [of _ features],
        rule exI [of _ "\<lparr>Data = floatView [2, 4] 0, Mask = Some \<lparr>MaskedCount = 1\<rparr>\<rparr>"],
        rule exI [of _ "[4]"], rule exI [of _ "\<lparr>Data = floatView [1] 6, Mask = None\<rparr>"],
        rule exI [of _ "FloatVal 6"], rule exI [of _ 6])
       (simp add: umap_index_def Rank_def small_defs)
  from TestMinbatch_needs_evaluation_function
    [where env = smallWorld and ?t1.0 = smallTrainer and evaluationFunction = smallEvaluation
       and arguments = minibatch and computeDevice = CPUDevice and h = "[]"
       and q = "Div 6 3" and t' = smallTrainer
       and h' = "[EForward smallCombined minibatch [(errorOutput, None)] CPUDevice []]",
     THEN conjunct2, rule_format, OF c, THEN iffD2, OF e1]
  have j: "TestMinbatch smallWorld smallTrainer minibatch CPUDevice [] =
     (Inr (Div 6 3), smallTrainer,
      [EForward smallCombined minibatch [(errorOutput, None)] CPUDevice []])" .
  have e2: "(\<exists>firstArgument others argumentVar argumentValue samplesShape evaluationValue v scalar.
           fn_Arguments smallEvaluation = firstArgument # others \<and>
           find (\<lambda>currentPair. DynamicAxes (fst currentPair) = DynamicAxes firstArgument)
             minibatch = Some (argumentVar, Some argumentValue) \<and>
           SubShape doubleWorld (view_Shape (Data argumentValue)) (Rank (Shape argumentVar)) =
             Inr samplesShape \<and>
           (case Mask argumentValue of None \<Rightarrow> 0 | Some m \<Rightarrow> MaskedCount m)
             \<le> TotalSize doubleWorld samplesShape \<and>
           umap_index
             (snd (Forward doubleWorld [] (m_combinedTrainingFunction smallTrainer) minibatch
                     [(fn_Output smallEvaluation, None)] (GPUDevice 0) []))
             (fn_Output smallEvaluation) = Some evaluationValue \<and>
           Mask evaluationValue = None \<and>
           TotalSize doubleWorld (view_Shape (Data evaluationValue)) = 1 \<and>
           (view_DataType (Data evaluationValue) = Float \<or>
            view_DataType (Data evaluationValue) = Double) \<and>
           (view_Storage (Data evaluationValue) = Filled v \<or>
            (\<exists>vs. view_Storage (Data evaluationValue) = Elements (v # vs))) \<and>
           (v = FloatVal scalar \<or> v = DoubleVal scalar) \<and>
           Div 9 3 = Div scalar
                 (TotalSize doubleWorld samplesShape -
                    (case Mask argumentValue of None \<Rightarrow> 0 | Some m \<Rightarrow> MaskedCount m)) \<and>
           smallTrainer = smallTrainer \<and>
           [EForward smallCombined minibatch [(errorOutput, None)] (GPUDevice 0) []] = [] @ [EForward (m_combinedTrainingFunction smallTrainer) minibatch
                       [(fn_Output smallEvaluation, None)] (GPUDevice 0) []])"
    by (rule exI [of _ labels], rule exI [of _ "[features]"], rule exI [of _ features],
        rule exI [of _ "\<lparr>Data = floatView [2, 4] 0, Mask = Some \<lparr>MaskedCount = 1\<rparr>\<rparr>"],
        rule exI [of _ "[4]"],
        rule exI [of _ "\<lparr>Data = \<lparr>view_DataType = Double, view_Shape = [1],
                             view_Device = GPUDevice 0,
                             view_Storage = Elements [DoubleVal 9]\<rparr>, Mask = None\<rparr>"],
        rule exI [of _ "DoubleVal 9"], rule exI [of _ 9])
       (simp add: umap_index_def Rank_def doubleWorld_def small_defs)
  from TestMinbatch_needs_evaluation_function
    [where env = doubleWorld and ?t1.0 = smallTrainer and evaluationFunction = smallEvaluation
       and arguments = minibatch and computeDevice = "GPUDevice 0" and h = "[]"
       and q = "Div 9 3" and t' = smallTrainer
       and h' = "[EForward smallCombined minibatch [(errorOutput, None)] (GPUDevice 0) []]",
     THEN conjunct2, rule_format, OF c, THEN iffD2, OF e2]
  have k: "TestMinbatch doubleWorld smallTrainer minibatch (GPUDevice 0) [] =
     (Inr (Div 9 3), smallTrainer,
      [EForward smallCombined minibatch [(errorOutput, None)] (GPUDevice 0) []])" .
  from d have d1: "TestMinbatch smallWorld noEvaluationTrainer minibatch CPUDevice [] =
             (Inl InvalidArgument, noEvaluationTrainer, [])"
    and d2: "PreviousMinibatchEvaluationAverage smallWorld noEvaluationTrainer =
             Inl InvalidArgument"
    by blast+
  from a b d1 d2 c j k show ?thesis by (intro conjI)
qed

subsection \<open>Checkpoints are written and read at one path\<close>

lemma stream_reads_append: "stream_reads (a @ b) = stream_reads a @ stream_reads b"
  by (induction a rule: stream_reads.induct) simp_all

lemma stream_reads_copies: "\<forall>e \<in> set cs. is_copy e \<Longrightarrow> stream_reads cs = []"
  by (induction cs rule: stream_reads.induct) simp_all

lemma SaveCheckpoint_single:
  "m_parameterLearners t = [learner] \<Longrightarrow>
   SaveCheckpoint env t p h =
     (Inr (), t,
      h @ [ESaveAsLegacyModel (m_combinedTrainingFunction t) p,
           EGetCheckpointState learner,
           EGetFstream (GetTrainerStateCheckpointFilePath p) False,
           EStreamWrite (GetTrainerStateCheckpointFilePath p)
             (GetCheckpointState env (h @ [ESaveAsLegacyModel (m_combinedTrainingFunction t) p])
                learner),
           EStreamFlush (GetTrainerStateCheckpointFilePath p)])"
  by (simp add: SaveCheckpoint_def GetFstream_def Let_def)

lemma SaveCheckpoint_many:
  "1 < length (m_parameterLearners t) \<Longrightarrow>
   SaveCheckpoint env t p h =
     (Inl LogicError, t, h @ [ESaveAsLegacyModel (m_combinedTrainingFunction t) p])"
  by (simp add: SaveCheckpoint_def Let_def)

lemma SaveCheckpoint_none:
  "m_parameterLearners t = [] \<Longrightarrow>
   SaveCheckpoint env t p h =
     (Inl UndefinedBehaviour, t, h @ [ESaveAsLegacyModel (m_combinedTrainingFunction t) p])"
  by (simp add: SaveCheckpoint_def Let_def)

lemma SaveCheckpoint_success:
  assumes "SaveCheckpoint env t p h = (Inr u, t1, h1)"
  obtains learner where "m_parameterLearners t = [learner]"
proof (cases "m_parameterLearners t")
  case Nil
  with assms SaveCheckpoint_none [OF Nil, of env p h] show ?thesis by simp
next
  case (Cons l ls)
  show ?thesis
  proof (cases ls)
    case Nil
    with Cons that show ?thesis by simp
  next
    case (Cons l' ls')
    with \<open>m_parameterLearners t = l # ls\<close> have "1 < length (m_parameterLearners t)" by simp
    from SaveCheckpoint_many [OF this, of env p h] assms show ?thesis by simp
  qed
qed

lemma update_leaf_variables_trace:
  "update_leaf_variables env lm tm h = (r, h') \<Longrightarrow> \<exists>cs. h' = h @ cs \<and> (\<forall>e \<in> set cs. is_copy e)"
proof (induction tm arbitrary: h)
  case Nil
  then show ?case by simp
next
  case (Cons p tm)
  show ?case
  proof (cases "map_at lm (Uid (snd p))")
    case (Inl e)
    with Cons.prems show ?thesis by simp
  next
    case (Inr c)
    show ?thesis
    proof (cases "areVariablesEquivalent env c (snd p)")
      case False
      with Inr Cons.prems show ?thesis by simp
    next
      case True
      show ?thesis
      proof (cases "IsConstant (snd p) \<or> IsParameter (snd p)")
        case True
        with Inr \<open>areVariablesEquivalent env c (snd p)\<close> Cons.prems
        have "update_leaf_variables env lm tm (h @ [ECopyFrom (value_of (snd p)) (value_of c)])
                = (r, h')"
          by (simp add: Let_def)
        from Cons.IH [OF this] obtain cs where
          "h' = (h @ [ECopyFrom (value_of (snd p)) (value_of c)]) @ cs" "\<forall>e \<in> set cs. is_copy e"
          by blast
        then have "h' = h @ (ECopyFrom (value_of (snd p)) (value_of c) # cs) \<and>
                   (\<forall>e \<in> set (ECopyFrom (value_of (snd p)) (value_of c) # cs). is_copy e)"
          by simp
        then show ?thesis by blast
      next
        case False
        with Inr \<open>areVariablesEquivalent env c (snd p)\<close> Cons.prems
        have "update_leaf_variables env lm tm h = (r, h')"
          by (simp add: Let_def)
        from Cons.IH [OF this] show ?thesis .
      qed
    qed
  qed
qed

text \<open>The body of \<open>RestoreFromCheckpoint\<close> once the two maps are built.\<close>

lemma RestoreFromCheckpoint_unfold:
  assumes "m_parameterLearners t = firstLearner # others"
    and "fn_Outputs (m_combinedTrainingFunction t) = output0 # outs"
    and "loaded = LoadLegacyModel env h (GetDataType output0) p CPUDevice"
    and "h1 = h @ [ELoadLegacyModel (GetDataType output0) p CPUDevice]"
    and "length (fn_Inputs (m_combinedTrainingFunction t)) = length (fn_Inputs loaded)"
    and "removePastAndFutureValueInitialStateScalarConstants env (m_allPrimitiveFunctions loaded)
           (leaf_variables_map (fn_Inputs loaded)) = Inr lm"
    and "removePastAndFutureValueInitialStateScalarConstants env
           (m_allPrimitiveFunctions (m_combinedTrainingFunction t))
           (leaf_variables_map (fn_Inputs (m_combinedTrainingFunction t))) = Inr tm"
    and "update_leaf_variables env lm tm h1 = (r, h2)"
  shows "RestoreFromCheckpoint env t p h =
     (case r of
        Inl e \<Rightarrow> (Inl e, t, h2)
      | Inr _ \<Rightarrow>
          if others \<noteq> [] then (Inl LogicError, t, h2)
          else (Inr (), t,
                h2 @ [EGetFstream (GetTrainerStateCheckpointFilePath p) True,
                      EStreamRead (GetTrainerStateCheckpointFilePath p),
                      ERestoreFromCheckpoint firstLearner
                        (StreamRead env
                           (h2 @ [EGetFstream (GetTrainerStateCheckpointFilePath p) True])
                           (GetTrainerStateCheckpointFilePath p))]))"
  using assms(5)
  unfolding RestoreFromCheckpoint_def assms(1) assms(2) list.case Let_def
    assms(3) [symmetric] assms(4) [symmetric] assms(6) assms(7) sum.case assms(8)
  by (cases r) (simp_all add: GetFstream_def)

lemma RestoreFromCheckpoint_success:
  assumes "RestoreFromCheckpoint env t p h = (Inr u, t2, h2)"
  shows "\<exists>learner d dt cs. m_parameterLearners t = [learner] \<and> t2 = t \<and>
           (\<forall>e \<in> set cs. is_copy e) \<and>
           h2 = h @ ELoadLegacyModel dt p CPUDevice # cs @
                  [EGetFstream (GetTrainerStateCheckpointFilePath p) True,
                   EStreamRead (GetTrainerStateCheckpointFilePath p),
                   ERestoreFromCheckpoint learner d]"
proof -
  let ?T = "m_combinedTrainingFunction t"
  from assms obtain firstLearner others where l: "m_parameterLearners t = firstLearner # others"
    by (cases "m_parameterLearners t") (simp_all add: RestoreFromCheckpoint_def)
  from assms l obtain output0 outs where o: "fn_Outputs ?T = output0 # outs"
    by (cases "fn_Outputs ?T") (simp_all add: RestoreFromCheckpoint_def)
  define loaded where "loaded = LoadLegacyModel env h (GetDataType output0) p CPUDevice"
  define h1 where "h1 = h @ [ELoadLegacyModel (GetDataType output0) p CPUDevice]"
  have len: "length (fn_Inputs ?T) = length (fn_Inputs loaded)"
    using assms unfolding RestoreFromCheckpoint_def l o list.case Let_def loaded_def
    by (simp split: if_splits)
  obtain lm where lm: "removePastAndFutureValueInitialStateScalarConstants env
       (m_allPrimitiveFunctions loaded) (leaf_variables_map (fn_Inputs loaded)) = Inr lm"
    using assms len unfolding RestoreFromCheckpoint_def l o list.case Let_def loaded_def
    by (simp split: sum.splits)
  obtain tm where tm: "removePastAndFutureValueInitialStateScalarConstants env
       (m_allPrimitiveFunctions ?T) (leaf_variables_map (fn_Inputs ?T)) = Inr tm"
    using assms len lm unfolding RestoreFromCheckpoint_def l o list.case Let_def loaded_def
    by (simp split: sum.splits)
  obtain r h2' where up: "update_leaf_variables env lm tm h1 = (r, h2')"
    by (cases "update_leaf_variables env lm tm h1")
  note unf = RestoreFromCheckpoint_unfold [OF l o loaded_def h1_def len lm tm up]
  from update_leaf_variables_trace [OF up] obtain cs where
    cs: "h2' = h1 @ cs" "\<forall>e \<in> set cs. is_copy e" by blast
  from assms unf obtain x where r: "r = Inr x" by (cases r) simp_all
  from assms unf r have e: "others = []" by (simp split: if_splits)
  from assms unf r e have "t2 = t" and
    "h2 = h2' @ [EGetFstream (GetTrainerStateCheckpointFilePath p) True,
                 EStreamRead (GetTrainerStateCheckpointFilePath p),
                 ERestoreFromCheckpoint firstLearner
                   (StreamRead env
                      (h2' @ [EGetFstream (GetTrainerStateCheckpointFilePath p) True])
                      (GetTrainerStateCheckpointFilePath p))]"
    by simp_all
  with cs l e show ?thesis unfolding h1_def by auto
qed


text \<open>
  Claim C4. With a single learner, SaveCheckpoint saves the combined training function to
  the model file path, asks the learner for its checkpoint state and writes that state to
  the file whose path is the model file path followed by ".ckp". With more than one
  learner it raises \<open>LogicError\<close>, and at that moment the model has already been saved to
  the model file path: that call is the only one made, and nothing undoes it.
\<close>

theorem SaveCheckpoint_model_then_learner_state:
  "(\<forall>learner. m_parameterLearners t = [learner] \<longrightarrow>
      SaveCheckpoint env t modelFilePath h =
        (Inr (), t,
         h @ [ESaveAsLegacyModel (m_combinedTrainingFunction t) modelFilePath,
              EGetCheckpointState learner,
              EGetFstream (modelFilePath @ L ''.ckp'') False,
              EStreamWrite (modelFilePath @ L ''.ckp'')
                (GetCheckpointState env
                   (h @ [ESaveAsLegacyModel (m_combinedTrainingFunction t) modelFilePath])
                   learner),
              EStreamFlush (modelFilePath @ L ''.ckp'')])) \<and>
   (1 < length (m_parameterLearners t) \<longrightarrow>
      SaveCheckpoint env t modelFilePath h =
        (Inl LogicError, t,
         h @ [ESaveAsLegacyModel (m_combinedTrainingFunction t) modelFilePath]))"
proof (intro conjI allI impI)
  fix learner
  assume "m_parameterLearners t = [learner]"
  from SaveCheckpoint_single [OF this, of env modelFilePath h]
  show "SaveCheckpoint env t modelFilePath h =
        (Inr (), t,
         h @ [ESaveAsLegacyModel (m_combinedTrainingFunction t) modelFilePath,
              EGetCheckpointState learner,
              EGetFstream (modelFilePath @ L ''.ckp'') False,
              EStreamWrite (modelFilePath @ L ''.ckp'')
                (GetCheckpointState env
                   (h @ [ESaveAsLegacyModel (m_combinedTrainingFunction t) modelFilePath])
                   learner),
              EStreamFlush (modelFilePath @ L ''.ckp'')])"
    by (simp add: GetTrainerStateCheckpointFilePath_def)
next
  assume "1 < length (m_parameterLearners t)"
  then show "SaveCheckpoint env t modelFilePath h =
        (Inl LogicError, t,
         h @ [ESaveAsLegacyModel (m_combinedTrainingFunction t) modelFilePath])"
    by (rule SaveCheckpoint_many)
qed

theorem SaveCheckpoint_model_then_learner_state_witness:
  "m_parameterLearners smallTrainer = [sgd] \<and>
   SaveCheckpoint smallWorld smallTrainer (L ''m'') [] =
     (Inr (), smallTrainer,
      [ESaveAsLegacyModel smallCombined (L ''m''), EGetCheckpointState sgd,
       EGetFstream (L ''m.ckp'') False,
       EStreamWrite (L ''m.ckp'') (Dictionary [(L ''step'', 7)]),
       EStreamFlush (L ''m.ckp'')]) \<and>
   1 < length (m_parameterLearners twoLearnerTrainer) \<and>
   SaveCheckpoint smallWorld twoLearnerTrainer (L ''m'') [] =
     (Inl LogicError, twoLearnerTrainer, [ESaveAsLegacyModel smallCombined (L ''m'')])"
proof -
  have a: "m_parameterLearners smallTrainer = [sgd]"
    by (simp add: smallTrainer_def)
  have b: "1 < length (m_parameterLearners twoLearnerTrainer)"
    by (simp add: twoLearnerTrainer_def)
  note th = SaveCheckpoint_model_then_learner_state [of _ smallWorld "L ''m''" "[]"]
  from th [of smallTrainer, THEN conjunct1, rule_format, OF a]
  have c: "SaveCheckpoint smallWorld smallTrainer (L ''m'') [] =
     (Inr (), smallTrainer,
      [ESaveAsLegacyModel smallCombined (L ''m''), EGetCheckpointState sgd,
       EGetFstream (L ''m.ckp'') False,
       EStreamWrite (L ''m.ckp'') (Dictionary [(L ''step'', 7)]),
       EStreamFlush (L ''m.ckp'')])"
    by (simp add: smallTrainer_def smallWorld_def L_def)
  from th [of twoLearnerTrainer, THEN conjunct2, rule_format, OF b]
  have d: "SaveCheckpoint smallWorld twoLearnerTrainer (L ''m'') [] =
     (Inl LogicError, twoLearnerTrainer, [ESaveAsLegacyModel smallCombined (L ''m'')])"
    by (simp add: twoLearnerTrainer_def smallTrainer_def)
  from a c b d show ?thesis by (intro conjI)
qed

text \<open>
  Claim C6. SaveCheckpoint and RestoreFromCheckpoint obtain the path of the trainer-state
  checkpoint file from the same function, which appends ".ckp" to the model file path.
  So when a SaveCheckpoint and a following RestoreFromCheckpoint with the same model file
  path both return, the one file that the restore reads the learner state from is the one
  file that the save wrote the learner state to.
\<close>

theorem checkpoint_path_round_trip:
  assumes "SaveCheckpoint env t modelFilePath h = (Inr u, t1, h1)"
    and "RestoreFromCheckpoint env t1 modelFilePath h1 = (Inr u', t2, h2)"
  shows "stream_writes (drop (length h) h1) = [GetTrainerStateCheckpointFilePath modelFilePath] \<and>
         stream_reads (drop (length h1) h2) = stream_writes (drop (length h) h1) \<and>
         GetTrainerStateCheckpointFilePath modelFilePath = modelFilePath @ L ''.ckp''"
proof -
  from assms(1) obtain learner where l: "m_parameterLearners t = [learner]"
    by (rule SaveCheckpoint_success)
  from assms(1) SaveCheckpoint_single [OF l, of env modelFilePath h]
  have w: "stream_writes (drop (length h) h1) =
             [GetTrainerStateCheckpointFilePath modelFilePath]"
    by auto
  from RestoreFromCheckpoint_success [OF assms(2)] obtain dt cs learner' d where
    cs: "\<forall>e \<in> set cs. is_copy e" and
    h2: "h2 = h1 @ ELoadLegacyModel dt modelFilePath CPUDevice # cs @
           [EGetFstream (GetTrainerStateCheckpointFilePath modelFilePath) True,
            EStreamRead (GetTrainerStateCheckpointFilePath modelFilePath),
            ERestoreFromCheckpoint learner' d]"
    by blast
  from h2 have "stream_reads (drop (length h1) h2) =
      stream_reads (cs @ [EGetFstream (GetTrainerStateCheckpointFilePath modelFilePath) True,
            EStreamRead (GetTrainerStateCheckpointFilePath modelFilePath),
            ERestoreFromCheckpoint learner' d])"
    by simp
  also have "\<dots> = [GetTrainerStateCheckpointFilePath modelFilePath]"
    by (simp add: stream_reads_append stream_reads_copies [OF cs])
  finally have r: "stream_reads (drop (length h1) h2) =
                     [GetTrainerStateCheckpointFilePath modelFilePath]" .
  from w r show ?thesis
    by (simp add: GetTrainerStateCheckpointFilePath_def)
qed

theorem checkpoint_path_round_trip_witness:
  "SaveCheckpoint smallWorld smallTrainer (L ''m'') [] =
     (Inr (), smallTrainer,
      [ESaveAsLegacyModel smallCombined (L ''m''), EGetCheckpointState sgd,
       EGetFstream (L ''m.ckp'') False,
       EStreamWrite (L ''m.ckp'') (Dictionary [(L ''step'', 7)]),
       EStreamFlush (L ''m.ckp'')]) \<and>
   fst (RestoreFromCheckpoint smallWorld smallTrainer (L ''m'')
          (snd (snd (SaveCheckpoint smallWorld smallTrainer (L ''m'') [])))) = Inr () \<and>
   stream_reads (drop 5 (snd (snd (RestoreFromCheckpoint smallWorld smallTrainer (L ''m'')
          (snd (snd (SaveCheckpoint smallWorld smallTrainer (L ''m'') []))))))) = [L ''m.ckp'']"
proof -
  define h1 where "h1 = [ESaveAsLegacyModel smallCombined (L ''m''), EGetCheckpointState sgd,
       EGetFstream (L ''m.ckp'') False,
       EStreamWrite (L ''m.ckp'') (Dictionary [(L ''step'', 7)]),
       EStreamFlush (L ''m.ckp'')]"
  have a: "SaveCheckpoint smallWorld smallTrainer (L ''m'') [] = (Inr (), smallTrainer, h1)"
    unfolding h1_def
    by (simp add: SaveCheckpoint_def GetFstream_def GetTrainerStateCheckpointFilePath_def
        smallTrainer_def smallWorld_def L_def Let_def)
  obtain r t2 h2 where b0: "RestoreFromCheckpoint smallWorld smallTrainer (L ''m'') h1 = (r, t2, h2)"
    by (cases "RestoreFromCheckpoint smallWorld smallTrainer (L ''m'') h1")
  have "fst (RestoreFromCheckpoint smallWorld smallTrainer (L ''m'') h1) = Inr ()"
    by (simp add: RestoreFromCheckpoint_def GetFstream_def GetTrainerStateCheckpointFilePath_def
        leaf_variables_map_def map_erase_def map_at_def areVariablesEquivalent_def
        IsConstant_def IsParameter_def value_of_def small_defs Let_def)
  with b0 have b: "RestoreFromCheckpoint smallWorld smallTrainer (L ''m'') h1 = (Inr (), t2, h2)"
    by simp
  from checkpoint_path_round_trip [OF a b]
  have "stream_reads (drop (length h1) h2) = [L ''m.ckp'']"
    by (simp add: GetTrainerStateCheckpointFilePath_def L_def)
  moreover have "length h1 = 5" by (simp add: h1_def)
  ultimately have c: "stream_reads (drop 5 h2) = [L ''m.ckp'']" by simp
  from a b c show ?thesis unfolding h1_def by simp
qed

subsection \<open>Restoring from a checkpoint: maps from UID to leaf variable\<close>

lemma map_of_map_assign: "map_of (map_assign k v m) = (map_of m)(k \<mapsto> v)"
proof (induction m)
  case Nil
  show ?case by simp
next
  case (Cons a m)
  obtain k' v' where a: "a = (k', v')" by (cases a)
  show ?case using Cons.IH by (auto simp: a fun_eq_iff)
qed

lemma keys_map_assign: "set (map fst (map_assign k v m)) = insert k (set (map fst m))"
proof (induction m)
  case Nil
  show ?case by simp
next
  case (Cons a m)
  obtain k' v' where a: "a = (k', v')" by (cases a)
  show ?case
  proof (cases "k = k'")
    case True
    then show ?thesis by (simp add: a)
  next
    case False
    show ?thesis
    proof (cases "k < k'")
      case True
      with False show ?thesis by (simp add: a)
    next
      case n: False
      with False Cons.IH show ?thesis by (simp add: a insert_commute)
    qed
  qed
qed

lemma sorted_map_assign:
  "sorted_wrt (<) (map fst m) \<Longrightarrow> sorted_wrt (<) (map fst (map_assign k v m))"
proof (induction m)
  case Nil
  show ?case by simp
next
  case (Cons a m)
  obtain k' v' where a: "a = (k', v')" by (cases a)
  from Cons.prems have s: "sorted_wrt (<) (map fst m)" and g: "\<forall>x \<in> set (map fst m). k' < x"
    by (simp_all add: a)
  show ?case
  proof (cases "k = k'")
    case True
    with Cons.prems show ?thesis by (simp add: a)
  next
    case False
    show ?thesis
    proof (cases "k < k'")
      case True
      with False Cons.prems g show ?thesis by (auto simp: a)
    next
      case n: False
      with False have "k' < k" by simp
      with False n Cons.IH [OF s] g keys_map_assign [of k v m]
      show ?thesis by (auto simp: a)
    qed
  qed
qed

lemma leaf_variables_map_fold:
  "sorted_wrt (<) (map fst m) \<Longrightarrow>
   sorted_wrt (<) (map fst (fold (\<lambda>leafVar m. map_assign (Uid leafVar) leafVar m) vs m)) \<and>
   map_of (fold (\<lambda>leafVar m. map_assign (Uid leafVar) leafVar m) vs m) =
     map_of (rev (map (\<lambda>v. (Uid v, v)) vs) @ m)"
proof (induction vs arbitrary: m)
  case Nil
  then show ?case by simp
next
  case (Cons v vs)
  from Cons.prems have "sorted_wrt (<) (map fst (map_assign (Uid v) v m))"
    by (rule sorted_map_assign)
  from Cons.IH [OF this] show ?case
    by (simp add: map_of_map_assign fun_eq_iff map_add_def split: option.splits)
qed

lemma strictly_sorted_distinct: "sorted_wrt (<) (ks :: wstring list) \<Longrightarrow> distinct ks"
  by (induction ks) auto

lemma leaf_variables_map_distinct: "distinct (map fst (leaf_variables_map vs))"
  using leaf_variables_map_fold [of "[]" vs]
  by (simp add: leaf_variables_map_def strictly_sorted_distinct)

lemma leaf_variables_map_lookup:
  assumes "distinct (map Uid vs)"
  shows "map_of (leaf_variables_map vs) k = Some v \<longleftrightarrow> v \<in> set vs \<and> Uid v = k"
proof -
  have "map_of (leaf_variables_map vs) = map_of (rev (map (\<lambda>v. (Uid v, v)) vs))"
    using leaf_variables_map_fold [of "[]" vs] by (simp add: leaf_variables_map_def)
  moreover have "distinct (map fst (rev (map (\<lambda>v. (Uid v, v)) vs)))"
    using assms by (simp add: rev_map [symmetric] comp_def)
  ultimately show ?thesis by auto
qed

lemma leaf_variables_map_entries:
  assumes "distinct (map Uid vs)"
  shows "set (leaf_variables_map vs) = (\<lambda>v. (Uid v, v)) ` set vs"
proof -
  have "p \<in> set (leaf_variables_map vs) \<longleftrightarrow> p \<in> (\<lambda>v. (Uid v, v)) ` set vs" for p
  proof -
    obtain k v where p: "p = (k, v)" by (cases p)
    have "(k, v) \<in> set (leaf_variables_map vs) \<longleftrightarrow> map_of (leaf_variables_map vs) k = Some v"
      using leaf_variables_map_distinct [of vs] by simp
    then show ?thesis unfolding p leaf_variables_map_lookup [OF assms] by auto
  qed
  then show ?thesis by blast
qed


subsection \<open>Removing the initial states\<close>

lemma removePastAndFutureValueInitialStateScalarConstants_filter:
  assumes "\<forall>pf \<in> set primitiveFunctions.
             OpType pf = PastValue \<or> OpType pf = FutureValue \<longrightarrow> 2 \<le> length (prim_Inputs pf)"
  shows "removePastAndFutureValueInitialStateScalarConstants env primitiveFunctions m =
           Inr (filter (\<lambda>p. fst p \<notin> set (initial_state_uids env primitiveFunctions)) m)"
  using assms
proof (induction primitiveFunctions arbitrary: m)
  case Nil
  show ?case by (simp add: initial_state_uids_def)
next
  case (Cons pf rest)
  from Cons.prems have wf: "\<forall>pf \<in> set rest.
      OpType pf = PastValue \<or> OpType pf = FutureValue \<longrightarrow> 2 \<le> length (prim_Inputs pf)"
    by simp
  note ih = Cons.IH [OF wf]
  have uids: "set (initial_state_uids env (pf # rest)) =
      Uid ` set (initial_state_scalar_constants env pf) \<union> set (initial_state_uids env rest)"
    by (simp add: initial_state_uids_def)
  show ?case
  proof (cases "OpType pf = PastValue \<or> OpType pf = FutureValue")
    case False
    then have "initial_state_scalar_constants env pf = []"
      by (simp add: initial_state_scalar_constants_def)
    with False ih [of m] uids show ?thesis by simp
  next
    case True
    with Cons.prems have "2 \<le> length (prim_Inputs pf)" by auto
    then obtain a i more where inputs: "prim_Inputs pf = a # i # more"
      by (cases "prim_Inputs pf"; cases "tl (prim_Inputs pf)") auto
    show ?thesis
    proof (cases "IsConstant i \<and> TotalSize env (Shape i) = 1")
      case c: True
      with True inputs have "initial_state_scalar_constants env pf = [i]"
        by (simp add: initial_state_scalar_constants_def)
      with uids have u: "set (initial_state_uids env (pf # rest)) =
          insert (Uid i) (set (initial_state_uids env rest))"
        by simp
      have "removePastAndFutureValueInitialStateScalarConstants env (pf # rest) m =
              removePastAndFutureValueInitialStateScalarConstants env rest (map_erase (Uid i) m)"
        using True inputs c by simp
      also have "\<dots> = Inr (filter (\<lambda>p. fst p \<notin> set (initial_state_uids env rest))
                            (map_erase (Uid i) m))"
        by (rule ih)
      also have "filter (\<lambda>p. fst p \<notin> set (initial_state_uids env rest)) (map_erase (Uid i) m) =
                 filter (\<lambda>p. fst p \<notin> set (initial_state_uids env (pf # rest))) m"
        unfolding u map_erase_def by (auto intro: filter_cong)
      finally show ?thesis .
    next
      case c: False
      with True inputs have "initial_state_scalar_constants env pf = []"
        by (simp add: initial_state_scalar_constants_def)
      with uids have u: "set (initial_state_uids env (pf # rest)) =
          set (initial_state_uids env rest)"
        by simp
      have "removePastAndFutureValueInitialStateScalarConstants env (pf # rest) m =
              removePastAndFutureValueInitialStateScalarConstants env rest m"
        using True inputs c by auto
      with ih [of m] u show ?thesis by simp
    qed
  qed
qed

lemma map_of_filter_keys:
  "map_of (filter (\<lambda>p. fst p \<notin> R) m) k = (if k \<in> R then None else map_of m k)"
  by (induction m) auto

text \<open>The map that the restore builds for a function and then prunes.\<close>

lemma retained_map:
  assumes "distinct (map Uid (fn_Inputs f))"
    and "\<forall>pf \<in> set (m_allPrimitiveFunctions f).
           OpType pf = PastValue \<or> OpType pf = FutureValue \<longrightarrow> 2 \<le> length (prim_Inputs pf)"
  obtains m where
    "removePastAndFutureValueInitialStateScalarConstants env (m_allPrimitiveFunctions f)
       (leaf_variables_map (fn_Inputs f)) = Inr m"
    "distinct (map fst m)"
    "set m = (\<lambda>v. (Uid v, v)) ` set (retained_leaves env f)"
    "\<And>k v. map_of m k = Some v \<longleftrightarrow> v \<in> set (retained_leaves env f) \<and> Uid v = k"
proof -
  let ?R = "set (initial_state_uids env (m_allPrimitiveFunctions f))"
  let ?m = "filter (\<lambda>p. fst p \<notin> ?R) (leaf_variables_map (fn_Inputs f))"
  have 1: "removePastAndFutureValueInitialStateScalarConstants env (m_allPrimitiveFunctions f)
       (leaf_variables_map (fn_Inputs f)) = Inr ?m"
    using assms(2) by (rule removePastAndFutureValueInitialStateScalarConstants_filter)
  have 2: "distinct (map fst ?m)"
    using leaf_variables_map_distinct [of "fn_Inputs f"] by (simp add: distinct_map_filter)
  have 3: "set ?m = (\<lambda>v. (Uid v, v)) ` set (retained_leaves env f)"
    unfolding set_filter leaf_variables_map_entries [OF assms(1)] retained_leaves_def
    by auto
  have 4: "map_of ?m k = Some v \<longleftrightarrow> v \<in> set (retained_leaves env f) \<and> Uid v = k" for k v
    unfolding map_of_filter_keys retained_leaves_def
    using leaf_variables_map_lookup [OF assms(1), of k v] by auto
  from 1 2 3 4 show ?thesis by (rule that)
qed


subsection \<open>Updating the leaves\<close>

lemma areVariablesEquivalent_differ:
  "Uid left = Uid right \<Longrightarrow>
     areVariablesEquivalent env left right \<longleftrightarrow> \<not> leaves_differ env left right"
  by (auto simp: areVariablesEquivalent_def leaves_differ_def)

lemma map_at_found: "map_of m k = Some v \<Longrightarrow> map_at m k = Inr v"
  by (simp add: map_at_def)

lemma update_leaf_variables_all_equivalent:
  assumes "\<forall>p \<in> set tm. \<exists>v'. map_of lm (Uid (snd p)) = Some v' \<and>
             areVariablesEquivalent env v' (snd p)"
  shows "update_leaf_variables env lm tm h =
     (Inr (),
      h @ map (\<lambda>v. ECopyFrom (value_of v) (value_of (the (map_of lm (Uid v)))))
            (filter (\<lambda>v. IsConstant v \<or> IsParameter v) (map snd tm)))"
  using assms
proof (induction tm arbitrary: h)
  case Nil
  show ?case by simp
next
  case (Cons p tm)
  from Cons.prems obtain v' where v': "map_of lm (Uid (snd p)) = Some v'"
    "areVariablesEquivalent env v' (snd p)"
    by auto
  from Cons.prems have rest: "\<forall>p \<in> set tm. \<exists>v'. map_of lm (Uid (snd p)) = Some v' \<and>
             areVariablesEquivalent env v' (snd p)"
    by simp
  note ih = Cons.IH [OF rest]
  show ?case
  proof (cases "IsConstant (snd p) \<or> IsParameter (snd p)")
    case True
    with v' map_at_found [OF v'(1)] ih [of "h @ [ECopyFrom (value_of (snd p)) (value_of v')]"]
    show ?thesis by (simp add: Let_def)
  next
    case False
    with v' map_at_found [OF v'(1)] ih [of h]
    show ?thesis by (simp add: Let_def)
  qed
qed

lemma update_leaf_variables_some_differ:
  assumes "\<forall>p \<in> set tm. \<exists>v'. map_of lm (Uid (snd p)) = Some v'"
    and "\<exists>p \<in> set tm. \<exists>v'. map_of lm (Uid (snd p)) = Some v' \<and>
           \<not> areVariablesEquivalent env v' (snd p)"
  shows "fst (update_leaf_variables env lm tm h) = Inl InvalidArgument"
  using assms
proof (induction tm arbitrary: h)
  case Nil
  then show ?case by simp
next
  case (Cons p tm)
  from Cons.prems(1) obtain v' where v': "map_of lm (Uid (snd p)) = Some v'" by auto
  show ?case
  proof (cases "areVariablesEquivalent env v' (snd p)")
    case False
    with map_at_found [OF v'] show ?thesis by (simp add: Let_def)
  next
    case True
    from Cons.prems(1) have 1: "\<forall>p \<in> set tm. \<exists>v'. map_of lm (Uid (snd p)) = Some v'" by simp
    from Cons.prems(2) True v'
    have 2: "\<exists>p \<in> set tm. \<exists>v'. map_of lm (Uid (snd p)) = Some v' \<and>
           \<not> areVariablesEquivalent env v' (snd p)"
      by auto
    note ih = Cons.IH [OF 1 2]
    from True map_at_found [OF v'] ih show ?thesis by (simp add: Let_def)
  qed
qed

lemma value_of_inj: "value_of v = value_of w \<Longrightarrow> v = w"
  by (simp add: value_of_def split: if_splits)


lemma distinct_values_of_keys:
  assumes "distinct (map fst m)" and "\<forall>p \<in> set m. fst p = g (snd p)"
  shows "distinct (map snd m)"
proof -
  from assms(2) have "map fst m = map g (map snd m)" by (induction m) auto
  with assms(1) have "distinct (map g (map snd m))" by simp
  then show ?thesis by (simp only: distinct_map)
qed

lemma RestoreFromCheckpoint_counts_differ:
  assumes "m_parameterLearners t = firstLearner # others"
    and "fn_Outputs (m_combinedTrainingFunction t) = output0 # outs"
    and "length (fn_Inputs (m_combinedTrainingFunction t)) \<noteq>
           length (fn_Inputs (LoadLegacyModel env h (GetDataType output0) p CPUDevice))"
  shows "RestoreFromCheckpoint env t p h =
           (Inl InvalidArgument, t, h @ [ELoadLegacyModel (GetDataType output0) p CPUDevice])"
  using assms(3) unfolding RestoreFromCheckpoint_def assms(1,2) list.case Let_def
  by simp

text \<open>
  Claim C3, restricted to the retained leaves. Take a trainer with one learner whose combined function
  and the model loaded from the file have leaf variables with distinct UIDs (and whose
  PastValue and FutureValue functions have their two inputs). The leaves that count are
  the retained ones: the initial states of PastValue and FutureValue functions that are
  constants of total size one are set aside in both models. Let every retained leaf of the
  trainer's model have a retained leaf of the loaded model with its UID. Then
  RestoreFromCheckpoint raises \<open>InvalidArgument\<close> exactly when the two models differ in the
  number of their leaf variables, or some retained leaf of the trainer's model and the
  retained leaf of the loaded model with its UID differ in kind, in shape both as shapes
  and as tensor shapes, in data type, in the number of dynamic axes, in the needs-gradient
  flag or in sparsity. Otherwise it returns, having copied, once for every retained leaf of
  the trainer's model that is a constant or a parameter, the value of the loaded leaf with
  that UID into the trainer's leaf, and having then restored the learner's state from what
  it read in the file at the model file path followed by ".ckp".
\<close>

theorem RestoreFromCheckpoint_retained_leaves:
  fixes env t modelFilePath h output0
  defines "trainerModel \<equiv> m_combinedTrainingFunction t"
    and "loadedModel \<equiv> LoadLegacyModel env h (GetDataType output0) modelFilePath CPUDevice"
    and "ckp \<equiv> modelFilePath @ L ''.ckp''"
    and "load \<equiv> ELoadLegacyModel (GetDataType output0) modelFilePath CPUDevice"
  assumes learners: "m_parameterLearners t = [learner]"
    and outs: "fn_Outputs trainerModel = output0 # outputs"
    and uidsT: "distinct (map Uid (fn_Inputs trainerModel))"
    and uidsL: "distinct (map Uid (fn_Inputs loadedModel))"
    and wfT: "\<forall>pf \<in> set (m_allPrimitiveFunctions trainerModel).
                OpType pf = PastValue \<or> OpType pf = FutureValue \<longrightarrow> 2 \<le> length (prim_Inputs pf)"
    and wfL: "\<forall>pf \<in> set (m_allPrimitiveFunctions loadedModel).
                OpType pf = PastValue \<or> OpType pf = FutureValue \<longrightarrow> 2 \<le> length (prim_Inputs pf)"
    and matched: "Uid ` set (retained_leaves env trainerModel) \<subseteq>
                    Uid ` set (retained_leaves env loadedModel)"
  shows "(fst (RestoreFromCheckpoint env t modelFilePath h) = Inl InvalidArgument \<longleftrightarrow>
            length (fn_Inputs trainerModel) \<noteq> length (fn_Inputs loadedModel) \<or>
            (\<exists>v \<in> set (retained_leaves env trainerModel).
               \<exists>v' \<in> set (retained_leaves env loadedModel).
                 Uid v' = Uid v \<and> leaves_differ env v' v)) \<and>
         (fst (RestoreFromCheckpoint env t modelFilePath h) \<noteq> Inl InvalidArgument \<longrightarrow>
            (\<exists>copies.
               RestoreFromCheckpoint env t modelFilePath h =
                 (Inr (), t,
                  h @ load # copies @
                    [EGetFstream ckp True, EStreamRead ckp,
                     ERestoreFromCheckpoint learner
                       (StreamRead env (h @ load # copies @ [EGetFstream ckp True]) ckp)]) \<and>
               distinct copies \<and>
               set copies =
                 {ECopyFrom (value_of v) (value_of v') | v v'.
                    v \<in> set (retained_leaves env trainerModel) \<and>
                    (IsConstant v \<or> IsParameter v) \<and>
                    v' \<in> set (retained_leaves env loadedModel) \<and> Uid v' = Uid v}))"
proof (cases "length (fn_Inputs trainerModel) = length (fn_Inputs loadedModel)")
  case False
  from RestoreFromCheckpoint_counts_differ
    [OF learners outs [unfolded trainerModel_def] False [unfolded trainerModel_def loadedModel_def]]
  have "fst (RestoreFromCheckpoint env t modelFilePath h) = Inl InvalidArgument" by simp
  with False show ?thesis by simp
next
  case len: True
  let ?T = "retained_leaves env trainerModel"
  let ?L = "retained_leaves env loadedModel"
  obtain lm where lm:
    "removePastAndFutureValueInitialStateScalarConstants env (m_allPrimitiveFunctions loadedModel)
       (leaf_variables_map (fn_Inputs loadedModel)) = Inr lm"
    "\<And>k v. map_of lm k = Some v \<longleftrightarrow> v \<in> set ?L \<and> Uid v = k"
  proof (rule retained_map [OF uidsL wfL, of env])
    fix m
    assume "removePastAndFutureValueInitialStateScalarConstants env
              (m_allPrimitiveFunctions loadedModel)
              (leaf_variables_map (fn_Inputs loadedModel)) = Inr m"
      and "\<And>k v. map_of m k = Some v \<longleftrightarrow> v \<in> set ?L \<and> Uid v = k"
    then show thesis by (rule that)
  qed
  obtain tm where tm:
    "removePastAndFutureValueInitialStateScalarConstants env (m_allPrimitiveFunctions trainerModel)
       (leaf_variables_map (fn_Inputs trainerModel)) = Inr tm"
    "distinct (map fst tm)"
    "set tm = (\<lambda>v. (Uid v, v)) ` set ?T"
  proof (rule retained_map [OF uidsT wfT, of env])
    fix m
    assume "removePastAndFutureValueInitialStateScalarConstants env
              (m_allPrimitiveFunctions trainerModel)
              (leaf_variables_map (fn_Inputs trainerModel)) = Inr m"
      and "distinct (map fst m)"
      and "set m = (\<lambda>v. (Uid v, v)) ` set ?T"
    then show thesis by (rule that)
  qed
  define h1 where "h1 = h @ [load]"
  obtain r h2 where up: "update_leaf_variables env lm tm h1 = (r, h2)"
    by (cases "update_leaf_variables env lm tm h1")
  note unf = RestoreFromCheckpoint_unfold
    [OF learners outs [unfolded trainerModel_def] loadedModel_def [THEN meta_eq_to_obj_eq]
        h1_def [unfolded load_def] len [unfolded trainerModel_def] lm(1)
        tm(1) [unfolded trainerModel_def] up]
  have keys: "fst p = Uid (snd p)" if "p \<in> set tm" for p
    using that tm(3) by auto
  have vars: "set (map snd tm) = set ?T"
    using tm(3) by (auto simp: image_iff)
  have dvars: "distinct (map snd tm)"
    using tm(2) keys by (intro distinct_values_of_keys [where g = Uid]) auto
  have found: "\<exists>v'. map_of lm (Uid (snd p)) = Some v'" if "p \<in> set tm" for p
  proof -
    from that vars have "snd p \<in> set ?T" by force
    with matched obtain v' where "v' \<in> set ?L" "Uid v' = Uid (snd p)" by (auto simp: image_iff)
    with lm(2) show ?thesis by blast
  qed
  let ?differ = "\<exists>v \<in> set ?T. \<exists>v' \<in> set ?L. Uid v' = Uid v \<and> leaves_differ env v' v"
  show ?thesis
  proof (cases ?differ)
    case True
    then obtain v v' where d: "v \<in> set ?T" "v' \<in> set ?L" "Uid v' = Uid v"
      "leaves_differ env v' v" by blast
    from d(1) vars obtain p where p: "p \<in> set tm" "snd p = v" by force
    from d lm(2) have "map_of lm (Uid v) = Some v'" by blast
    moreover from d have "\<not> areVariablesEquivalent env v' v"
      by (simp add: areVariablesEquivalent_differ)
    ultimately have "\<exists>p \<in> set tm. \<exists>v'. map_of lm (Uid (snd p)) = Some v' \<and>
           \<not> areVariablesEquivalent env v' (snd p)"
      using p by blast
    with found have "fst (update_leaf_variables env lm tm h1) = Inl InvalidArgument"
      by (intro update_leaf_variables_some_differ) blast+
    with up have "r = Inl InvalidArgument" by simp
    with unf have "fst (RestoreFromCheckpoint env t modelFilePath h) = Inl InvalidArgument"
      by simp
    with True show ?thesis by simp
  next
    case False
    have eq: "\<forall>p \<in> set tm. \<exists>v'. map_of lm (Uid (snd p)) = Some v' \<and>
             areVariablesEquivalent env v' (snd p)"
    proof
      fix p assume p: "p \<in> set tm"
      from found [OF p] obtain v' where v': "map_of lm (Uid (snd p)) = Some v'" by blast
      with lm(2) have l: "v' \<in> set ?L" "Uid v' = Uid (snd p)" by blast+
      from p vars have "snd p \<in> set ?T" by force
      with False l have "\<not> leaves_differ env v' (snd p)" by blast
      with l(2) have "areVariablesEquivalent env v' (snd p)"
        by (simp add: areVariablesEquivalent_differ)
      with v' show "\<exists>v'. map_of lm (Uid (snd p)) = Some v' \<and>
             areVariablesEquivalent env v' (snd p)"
        by blast
    qed
    let ?copy = "\<lambda>v. ECopyFrom (value_of v) (value_of (the (map_of lm (Uid v))))"
    define copies where
      "copies = map ?copy (filter (\<lambda>v. IsConstant v \<or> IsParameter v) (map snd tm))"
    from update_leaf_variables_all_equivalent [OF eq, of h1] up
    have r: "r = Inr ()" and h2: "h2 = h1 @ copies"
      by (simp_all add: copies_def)
    from unf r h2 have run: "RestoreFromCheckpoint env t modelFilePath h =
         (Inr (), t,
          h @ load # copies @
            [EGetFstream ckp True, EStreamRead ckp,
             ERestoreFromCheckpoint learner
               (StreamRead env (h @ load # copies @ [EGetFstream ckp True]) ckp)])"
      by (simp add: h1_def ckp_def GetTrainerStateCheckpointFilePath_def)
    have "inj_on ?copy (set (filter (\<lambda>v. IsConstant v \<or> IsParameter v) (map snd tm)))"
      by (rule inj_onI) (auto dest: value_of_inj)
    with dvars have dc: "distinct copies"
      by (simp add: copies_def distinct_map)
    have sc: "set copies =
                 {ECopyFrom (value_of v) (value_of v') | v v'.
                    v \<in> set ?T \<and> (IsConstant v \<or> IsParameter v) \<and>
                    v' \<in> set ?L \<and> Uid v' = Uid v}" (is "_ = ?S")
    proof (intro set_eqI iffI)
      fix e assume "e \<in> set copies"
      then obtain v where v: "v \<in> set (map snd tm)" "IsConstant v \<or> IsParameter v"
        "e = ?copy v"
        by (auto simp: copies_def)
      from v(1) obtain p where p: "p \<in> set tm" "snd p = v" by auto
      from found [OF p(1)] p(2) obtain v' where v': "map_of lm (Uid v) = Some v'" by blast
      with lm(2) have "v' \<in> set ?L" "Uid v' = Uid v" by blast+
      with v v' vars show "e \<in> ?S" by auto
    next
      fix e assume "e \<in> ?S"
      then obtain v v' where e: "e = ECopyFrom (value_of v) (value_of v')"
        "v \<in> set ?T" "IsConstant v \<or> IsParameter v" "v' \<in> set ?L" "Uid v' = Uid v"
        by blast
      from e(4,5) lm(2) have "map_of lm (Uid v) = Some v'" by blast
      with e(1) have "e = ?copy v" by simp
      moreover from e(2) vars have "v \<in> set (map snd tm)" by simp
      ultimately show "e \<in> set copies" using e(3) by (simp add: copies_def)
    qed
    from run dc sc have "\<exists>copies.
               RestoreFromCheckpoint env t modelFilePath h =
                 (Inr (), t,
                  h @ load # copies @
                    [EGetFstream ckp True, EStreamRead ckp,
                     ERestoreFromCheckpoint learner
                       (StreamRead env (h @ load # copies @ [EGetFstream ckp True]) ckp)]) \<and>
               distinct copies \<and>
               set copies = ?S"
      by (intro exI conjI)
    moreover from run have "fst (RestoreFromCheckpoint env t modelFilePath h) \<noteq> Inl InvalidArgument"
      by simp
    ultimately show ?thesis using False len by simp
  qed
qed


theorem RestoreFromCheckpoint_retained_leaves_witness:
  "fst (RestoreFromCheckpoint smallWorld smallTrainer (L ''m'') []) = Inr ()"
proof -
  let ?loaded = "LoadLegacyModel smallWorld [] (GetDataType prediction) (L ''m'') CPUDevice"
  have loaded: "?loaded = smallCombined" by (simp add: smallWorld_def)
  have combined: "m_combinedTrainingFunction smallTrainer = smallCombined"
    by (simp add: smallTrainer_def)
  have learners: "m_parameterLearners smallTrainer = [sgd]"
    by (simp add: smallTrainer_def)
  have outs: "fn_Outputs (m_combinedTrainingFunction smallTrainer) =
                prediction # [lossOutput, errorOutput]"
    by (simp add: smallTrainer_def smallCombined_def networkFunction_def)
  have uids: "distinct (map Uid (fn_Inputs smallCombined))"
    by (simp add: small_defs)
  have wf: "\<forall>pf \<in> set (m_allPrimitiveFunctions smallCombined).
              OpType pf = PastValue \<or> OpType pf = FutureValue \<longrightarrow> 2 \<le> length (prim_Inputs pf)"
    by (simp add: smallCombined_def networkFunction_def delay_def)
  have retained: "retained_leaves smallWorld smallCombined = [features, labels, weights]"
    by (simp add: retained_leaves_def initial_state_uids_def initial_state_scalar_constants_def
        IsConstant_def small_defs)
  have matched: "Uid ` set (retained_leaves smallWorld smallCombined) \<subseteq>
                   Uid ` set (retained_leaves smallWorld smallCombined)"
    by simp
  have same: "\<not> (length (fn_Inputs smallCombined) \<noteq> length (fn_Inputs smallCombined) \<or>
            (\<exists>v \<in> set (retained_leaves smallWorld smallCombined).
               \<exists>v' \<in> set (retained_leaves smallWorld smallCombined).
                 Uid v' = Uid v \<and> leaves_differ smallWorld v' v))"
    unfolding retained
    by (simp add: leaves_differ_def features_def labels_def weights_def L_def)
  note th = RestoreFromCheckpoint_retained_leaves
    [of smallTrainer sgd prediction "[lossOutput, errorOutput]" smallWorld "[]" "L ''m''",
     unfolded loaded combined, OF learners outs [unfolded combined] uids uids wf wf matched]
  from th [THEN conjunct1] same
  have "fst (RestoreFromCheckpoint smallWorld smallTrainer (L ''m'') []) \<noteq> Inl InvalidArgument"
    by (simp only: simp_thms)
  from th [THEN conjunct2, rule_format, OF this]
  obtain copies where "RestoreFromCheckpoint smallWorld smallTrainer (L ''m'') [] =
      (Inr (), smallTrainer,
       [] @ ELoadLegacyModel (GetDataType prediction) (L ''m'') CPUDevice # copies @
         [EGetFstream (L ''m'' @ L ''.ckp'') True, EStreamRead (L ''m'' @ L ''.ckp''),
          ERestoreFromCheckpoint sgd
            (StreamRead smallWorld
               ([] @ ELoadLegacyModel (GetDataType prediction) (L ''m'') CPUDevice # copies @
                  [EGetFstream (L ''m'' @ L ''.ckp'') True])
               (L ''m'' @ L ''.ckp''))])"
    by blast
  then show ?thesis by simp
qed

text \<open>
  Without the restriction to the retained leaves the statement fails, on the small
  trainer. The initial state of its delay is a
  constant leaf variable of the trainer's model, and the loaded model has the leaf with the
  same UID; no \<open>InvalidArgument\<close> is raised, and the only value copied is that of the
  weights: the value of the initial state is not copied.
\<close>

theorem RestoreFromCheckpoint_initial_state_counterexample:
  "initialState \<in> set (fn_Inputs (m_combinedTrainingFunction smallTrainer)) \<and>
   IsConstant initialState \<and>
   initialState \<in> set (fn_Inputs (LoadLegacyModel smallWorld [] Float (L ''m'') CPUDevice)) \<and>
   RestoreFromCheckpoint smallWorld smallTrainer (L ''m'') [] =
     (Inr (), smallTrainer, restoredTrace) \<and>
   filter is_copy restoredTrace = [ECopyFrom (ParameterValue weights) (ParameterValue weights)] \<and>
   ECopyFrom (ConstantValue initialState) (ConstantValue initialState) \<notin> set restoredTrace"
proof -
  have a: "initialState \<in> set (fn_Inputs (m_combinedTrainingFunction smallTrainer))"
    by (simp add: smallTrainer_def smallCombined_def networkFunction_def)
  have b: "IsConstant initialState"
    by (simp add: IsConstant_def initialState_def)
  have c: "initialState \<in> set (fn_Inputs (LoadLegacyModel smallWorld [] Float (L ''m'') CPUDevice))"
    by (simp add: smallWorld_def smallCombined_def networkFunction_def)
  have d: "RestoreFromCheckpoint smallWorld smallTrainer (L ''m'') [] =
     (Inr (), smallTrainer, restoredTrace)"
    by (simp add: RestoreFromCheckpoint_def GetFstream_def GetTrainerStateCheckpointFilePath_def
        leaf_variables_map_def map_erase_def map_at_def areVariablesEquivalent_def
        IsConstant_def IsParameter_def value_of_def restoredTrace_def small_defs Let_def)
  have e: "filter is_copy restoredTrace =
      [ECopyFrom (ParameterValue weights) (ParameterValue weights)]"
    by (simp add: restoredTrace_def)
  have f: "ECopyFrom (ConstantValue initialState) (ConstantValue initialState) \<notin> set restoredTrace"
    by (simp add: restoredTrace_def)
  from a b c d e f show ?thesis by (intro conjI)
qed

end
